theory Spec2Isabelle
  imports Main
begin

section \<open>Strings and regular expressions of the host language\<close>

text \<open>
  The validator of \<^verbatim>\<open>src/validators/regExp.ts\<close> hands every decision to the
  regular expression engine of JavaScript: \<^verbatim>\<open>pattern.test(value)\<close>.  This section
  embeds the part of that engine the validator uses.

  A JavaScript string is a sequence of UTF-16 code units.  A code unit is modelled as a
  natural number, so that the line terminators U+2028 and U+2029, which the dot of a
  pattern refuses, are values of the type.  Literals are written as HOL strings and
  converted with \<open>js\<close>.
\<close>

type_synonym jschar = nat
type_synonym jsstring = "jschar list"

definition js :: "string \<Rightarrow> jsstring" where
  "js s = map of_char s"

text \<open>
  The flags a pattern of the source carries: \<^verbatim>\<open>i\<close> and \<^verbatim>\<open>u\<close>.  No pattern of the
  source is global, sticky, multiline or dot-all, so a pattern has no \<^verbatim>\<open>lastIndex\<close>
  state, \<^verbatim>\<open>^\<close> and \<^verbatim>\<open>$\<close> mean the two ends of the input, and the dot refuses the
  line terminators.
\<close>

record flags =
  ignoreCase :: bool
  unicodeMode :: bool

definition no_flags :: flags where
  "no_flags = \<lparr>ignoreCase = False, unicodeMode = False\<rparr>"

definition flag_i :: flags where
  "flag_i = \<lparr>ignoreCase = True, unicodeMode = False\<rparr>"

definition flag_u :: flags where
  "flag_u = \<lparr>ignoreCase = False, unicodeMode = True\<rparr>"

text \<open>The members of a character class, and the atoms that consume one character.\<close>

datatype citem =
    CChar nat
  | CRange nat nat
  | CDigit
  | CNotDigit
  | CSpace
  | CNotSpace
  | CWord
  | CNotWord

datatype atom =
    AChar nat
  | ADot
  | AClass bool "citem list"

datatype regex =
    Empty
  | Atom atom
  | BOL
  | EOL
  | Seq regex regex
  | Alt regex regex
  | Rep nat "nat option" bool regex
  | Group bool regex
  | Look bool regex

text \<open>
  \<open>Rep lo hi greedy r\<close> is \<^verbatim>\<open>r{lo,hi}\<close> (\<open>hi = None\<close> for no upper bound),
  \<open>Group capturing r\<close> a parenthesis, \<open>Look positive r\<close> a look-ahead.
\<close>

definition is_line_terminator :: "jschar \<Rightarrow> bool" where
  "is_line_terminator c \<longleftrightarrow> c = 10 \<or> c = 13 \<or> c = 8232 \<or> c = 8233"

definition is_digit_cu :: "jschar \<Rightarrow> bool" where
  "is_digit_cu c \<longleftrightarrow> 48 \<le> c \<and> c \<le> 57"

definition is_word_cu :: "jschar \<Rightarrow> bool" where
  "is_word_cu c \<longleftrightarrow> (97 \<le> c \<and> c \<le> 122) \<or> (65 \<le> c \<and> c \<le> 90) \<or> is_digit_cu c \<or> c = 95"

text \<open>White space and line terminators, the set of \<^verbatim>\<open>\s\<close>.\<close>

definition is_space_cu :: "jschar \<Rightarrow> bool" where
  "is_space_cu c \<longleftrightarrow>
     (9 \<le> c \<and> c \<le> 13) \<or> c = 32 \<or> c = 160 \<or> c = 5760 \<or> (8192 \<le> c \<and> c \<le> 8202)
     \<or> c = 8232 \<or> c = 8233 \<or> c = 8239 \<or> c = 8287 \<or> c = 12288 \<or> c = 65279"

text \<open>
  Case folding of the \<^verbatim>\<open>i\<close> flag.  Without the \<^verbatim>\<open>u\<close> flag the engine compares the
  upper-case forms of single code units and never folds a code unit from 128 on to one
  below 128.  Every pattern of the source that carries \<^verbatim>\<open>i\<close> is written in ASCII, so
  only the ASCII letters are folded here: a code unit from 128 on then never equals a
  pattern character, as in the engine.
\<close>

definition upper_cu :: "jschar \<Rightarrow> jschar" where
  "upper_cu c = (if 97 \<le> c \<and> c \<le> 122 then c - 32 else c)"

definition lower_cu :: "jschar \<Rightarrow> jschar" where
  "lower_cu c = (if 65 \<le> c \<and> c \<le> 90 then c + 32 else c)"

definition in_range :: "nat \<Rightarrow> nat \<Rightarrow> jschar \<Rightarrow> bool" where
  "in_range lo hi c \<longleftrightarrow> lo \<le> c \<and> c \<le> hi"

fun citem_ok :: "flags \<Rightarrow> citem \<Rightarrow> jschar \<Rightarrow> bool" where
  "citem_ok f (CChar a) c =
     (if ignoreCase f then upper_cu a = upper_cu c else a = c)"
| "citem_ok f (CRange lo hi) c =
     (if ignoreCase f
      then in_range lo hi c \<or> in_range lo hi (upper_cu c) \<or> in_range lo hi (lower_cu c)
      else in_range lo hi c)"
| "citem_ok f CDigit c = is_digit_cu c"
| "citem_ok f CNotDigit c = (\<not> is_digit_cu c)"
| "citem_ok f CSpace c = is_space_cu c"
| "citem_ok f CNotSpace c = (\<not> is_space_cu c)"
| "citem_ok f CWord c = is_word_cu c"
| "citem_ok f CNotWord c = (\<not> is_word_cu c)"

fun atom_ok :: "flags \<Rightarrow> atom \<Rightarrow> jschar \<Rightarrow> bool" where
  "atom_ok f (AChar a) c = citem_ok f (CChar a) c"
| "atom_ok f ADot c = (\<not> is_line_terminator c)"
| "atom_ok f (AClass negated items) c = (negated \<noteq> list_ex (\<lambda>it. citem_ok f it c) items)"

text \<open>
  The state of a match is the index reached and the input that remains.  With the
  \<^verbatim>\<open>u\<close> flag a surrogate pair is read as one code point.
\<close>

type_synonym mstate = "nat \<times> jsstring"

definition is_lead :: "jschar \<Rightarrow> bool" where
  "is_lead c \<longleftrightarrow> 55296 \<le> c \<and> c \<le> 56319"

definition is_trail :: "jschar \<Rightarrow> bool" where
  "is_trail c \<longleftrightarrow> 56320 \<le> c \<and> c \<le> 57343"

fun next_char :: "flags \<Rightarrow> jsstring \<Rightarrow> (nat \<times> nat \<times> jsstring) option" where
  "next_char f [] = None"
| "next_char f [c] = Some (c, 1, [])"
| "next_char f (c # d # ds) =
     (if unicodeMode f \<and> is_lead c \<and> is_trail d
      then Some (65536 + (c - 55296) * 1024 + (d - 56320), 2, ds)
      else Some (c, 1, d # ds))"

definition step :: "flags \<Rightarrow> atom \<Rightarrow> mstate \<Rightarrow> mstate option" where
  "step f a x =
     (case next_char f (snd x) of
        None \<Rightarrow> None
      | Some (c, n, rest) \<Rightarrow> if atom_ok f a c then Some (fst x + n, rest) else None)"

text \<open>
  The backtracking matcher, in the continuation style of the language definition:
  \<open>matcher f r x k\<close> holds when \<open>r\<close> matches from state \<open>x\<close> and the continuation
  \<open>k\<close> accepts the state reached.  \<^verbatim>\<open>test\<close> only reports whether a match exists, so
  the order in which the alternatives are tried (and with it the greediness of a
  quantifier) does not show in the result.  A quantifier whose lower bound is met
  gives up an iteration that consumed nothing, as the engine does.
\<close>

fun rsize :: "regex \<Rightarrow> nat" where
  "rsize Empty = 1"
| "rsize (Atom a) = 1"
| "rsize BOL = 1"
| "rsize EOL = 1"
| "rsize (Seq a b) = Suc (rsize a + rsize b)"
| "rsize (Alt a b) = Suc (rsize a + rsize b)"
| "rsize (Rep lo hi g a) = Suc (rsize a + lo + (case hi of None \<Rightarrow> 0 | Some h \<Rightarrow> h))"
| "rsize (Group c a) = Suc (rsize a)"
| "rsize (Look p a) = Suc (rsize a)"

function (sequential) matcher :: "flags \<Rightarrow> regex \<Rightarrow> mstate \<Rightarrow> (mstate \<Rightarrow> bool) \<Rightarrow> bool" where
  "matcher f Empty x k = k x"
| "matcher f (Atom a) x k = (case step f a x of None \<Rightarrow> False | Some y \<Rightarrow> k y)"
| "matcher f BOL x k = (fst x = 0 \<and> k x)"
| "matcher f EOL x k = (snd x = [] \<and> k x)"
| "matcher f (Seq a b) x k = matcher f a x (\<lambda>y. matcher f b y k)"
| "matcher f (Alt a b) x k = (matcher f a x k \<or> matcher f b x k)"
| "matcher f (Group c a) x k = matcher f a x k"
| "matcher f (Look p a) x k = ((matcher f a x (\<lambda>y. True) = p) \<and> k x)"
| "matcher f (Rep lo hi g a) x k =
     (if hi = Some 0 then k x
      else if lo \<noteq> 0
      then matcher f a x (\<lambda>y. matcher f (Rep (lo - 1) (map_option (\<lambda>h. h - 1) hi) g a) y k)
      else matcher f a x
             (\<lambda>y. if length (snd y) < length (snd x)
                  then matcher f (Rep 0 (map_option (\<lambda>h. h - 1) hi) g a) y k
                  else False)
           \<or> k x)"
  by pat_completeness auto
termination
  by (relation "measures [\<lambda>(f, r, x, k). rsize r, \<lambda>(f, r, x, k). length (snd x)]")
     (auto split: option.splits)

text \<open>
  \<^verbatim>\<open>pattern.test(value)\<close> for a pattern that is neither global nor sticky: the match
  is tried from index 0, then from each later index (a whole code point later with the
  \<^verbatim>\<open>u\<close> flag), up to the end of the input.
\<close>

fun search :: "flags \<Rightarrow> regex \<Rightarrow> nat \<Rightarrow> jsstring \<Rightarrow> bool" where
  "search f r i [] = matcher f r (i, []) (\<lambda>y. True)"
| "search f r i (c # cs) =
     (matcher f r (i, c # cs) (\<lambda>y. True)
      \<or> (case cs of
            [] \<Rightarrow> search f r (i + 1) []
          | d # ds \<Rightarrow>
              if unicodeMode f \<and> is_lead c \<and> is_trail d
              then search f r (i + 2) ds
              else search f r (i + 1) cs))"

record regexp =
  rx_flags :: flags
  rx_ast :: regex

definition regexp_test :: "regexp \<Rightarrow> jsstring \<Rightarrow> bool" where
  "regexp_test p v = search (rx_flags p) (rx_ast p) 0 v"


section \<open>Reading a pattern from its source text\<close>

text \<open>
  \<^verbatim>\<open>isStrongPassword\<close> assembles the text of a pattern and hands it to
  \<^verbatim>\<open>new RegExp\<close>, so what the text means is part of the program.  The reader below
  follows the pattern grammar of the language, with its rules for web browsers (a brace
  that does not open a well-formed quantifier is an ordinary character; with the
  \<^verbatim>\<open>u\<close> flag it is a syntax error).  Constructs that no pattern of the source uses
  (back-references, word boundaries, look-behind, named groups, control and legacy octal
  escapes, escaped surrogate halves under the \<^verbatim>\<open>u\<close> flag) are refused, as a syntax
  error would be.  The pattern texts of the source are ASCII, so the reader works on HOL
  strings.

  The first pass cuts the text into tokens.
\<close>

datatype gkind = Capture | NonCapture | LookPos | LookNeg

datatype token =
    TAtom atom
  | TBOL
  | TEOL
  | TOpen gkind
  | TClose
  | TBar
  | TQuant nat "nat option" bool

definition is_dec :: "char \<Rightarrow> bool" where
  "is_dec c \<longleftrightarrow> 48 \<le> (of_char c :: nat) \<and> (of_char c :: nat) \<le> 57"

definition dec_value :: "string \<Rightarrow> nat" where
  "dec_value ds = foldl (\<lambda>n c. 10 * n + (of_char c - 48)) 0 ds"

definition hex_digit :: "char \<Rightarrow> nat option" where
  "hex_digit c =
     (let n = (of_char c :: nat) in
      if 48 \<le> n \<and> n \<le> 57 then Some (n - 48)
      else if 97 \<le> n \<and> n \<le> 102 then Some (n - 87)
      else if 65 \<le> n \<and> n \<le> 70 then Some (n - 55)
      else None)"

definition hex_value :: "string \<Rightarrow> nat option" where
  "hex_value ds =
     (if ds \<noteq> [] \<and> list_all (\<lambda>c. hex_digit c \<noteq> None) ds
      then Some (foldl (\<lambda>n c. 16 * n + (case hex_digit c of Some d \<Rightarrow> d | None \<Rightarrow> 0)) 0 ds)
      else None)"

text \<open>
  \<open>lex_brace\<close> reads what follows an opening brace: \<^verbatim>\<open>n}\<close>, \<^verbatim>\<open>n,}\<close> or
  \<^verbatim>\<open>n,m}\<close> with decimal digits, and nothing else.
\<close>

definition lex_brace :: "string \<Rightarrow> (nat \<times> nat option \<times> string) option" where
  "lex_brace cs =
     (let ds = takeWhile is_dec cs; r = dropWhile is_dec cs in
      if ds = [] then None
      else case r of
        [] \<Rightarrow> None
      | c # r1 \<Rightarrow>
          if c = CHR ''}'' then Some (dec_value ds, Some (dec_value ds), r1)
          else if c = CHR '','' then
            (let es = takeWhile is_dec r1; r2 = dropWhile is_dec r1 in
             case r2 of
               [] \<Rightarrow> None
             | d # r3 \<Rightarrow>
                 if d = CHR ''}''
                 then Some (dec_value ds, if es = [] then None else Some (dec_value es), r3)
                 else None)
          else None)"

text \<open>A quantifier may be followed by \<^verbatim>\<open>?\<close>, which makes it lazy.\<close>

definition lex_lazy :: "string \<Rightarrow> bool \<times> string" where
  "lex_lazy cs = (case cs of [] \<Rightarrow> (True, []) | c # r \<Rightarrow> if c = CHR ''?'' then (False, r) else (True, cs))"

text \<open>
  The character escapes, shared by classes and atoms: \<open>char_escape u c r\<close> reads the
  escape that starts with the character \<open>c\<close> after the backslash.
\<close>

definition is_syntax_char :: "char \<Rightarrow> bool" where
  "is_syntax_char c \<longleftrightarrow> c \<in> set ''^$.*+?()[]{}|/'' \<or> c = CHR 0x5C"

definition char_escape :: "bool \<Rightarrow> char \<Rightarrow> string \<Rightarrow> (nat \<times> string) option" where
  "char_escape u c r =
     (if c = CHR ''t'' then Some (9, r)
      else if c = CHR ''n'' then Some (10, r)
      else if c = CHR ''v'' then Some (11, r)
      else if c = CHR ''f'' then Some (12, r)
      else if c = CHR ''r'' then Some (13, r)
      else if c = CHR ''0'' then (if r \<noteq> [] \<and> is_dec (hd r) then None else Some (0, r))
      else if c = CHR ''x'' then
        (case hex_value (take 2 r) of
           Some n \<Rightarrow> if length r \<ge> 2 then Some (n, drop 2 r) else if u then None else Some (of_char c, r)
         | None \<Rightarrow> if u then None else Some (of_char c, r))
      else if c = CHR ''u'' then
        (if u \<and> r \<noteq> [] \<and> hd r = CHR ''{'' then
           (let ds = takeWhile (\<lambda>d. d \<noteq> CHR ''}'') (tl r); r1 = dropWhile (\<lambda>d. d \<noteq> CHR ''}'') (tl r) in
            case hex_value ds of
              Some n \<Rightarrow> if r1 \<noteq> [] \<and> n \<le> 1114111 then Some (n, tl r1) else None
            | None \<Rightarrow> None)
         else case hex_value (take 4 r) of
           Some n \<Rightarrow>
             if length r \<ge> 4 then (if u \<and> is_lead n then None else Some (n, drop 4 r))
             else if u then None else Some (of_char c, r)
         | None \<Rightarrow> if u then None else Some (of_char c, r))
      else if c \<in> set ''123456789cbBkdDsSwW'' then None
      else if u \<and> \<not> is_syntax_char c then None
      else Some (of_char c, r))"

definition class_escape :: "char \<Rightarrow> citem option" where
  "class_escape c =
     (if c = CHR ''d'' then Some CDigit
      else if c = CHR ''D'' then Some CNotDigit
      else if c = CHR ''s'' then Some CSpace
      else if c = CHR ''S'' then Some CNotSpace
      else if c = CHR ''w'' then Some CWord
      else if c = CHR ''W'' then Some CNotWord
      else None)"

text \<open>One member of a class: an escape or a character.  Inside a class \<^verbatim>\<open>\b\<close> is a backspace
  and, with the \<^verbatim>\<open>u\<close> flag, \<^verbatim>\<open>\-\<close> a hyphen.\<close>

definition class_atom :: "bool \<Rightarrow> string \<Rightarrow> (citem \<times> string) option" where
  "class_atom u s =
     (case s of
        [] \<Rightarrow> None
      | c # r \<Rightarrow>
          if c = CHR 0x5C then
            (case r of
               [] \<Rightarrow> None
             | e # r1 \<Rightarrow>
                 (case class_escape e of
                    Some it \<Rightarrow> Some (it, r1)
                  | None \<Rightarrow>
                      if e = CHR ''b'' then Some (CChar 8, r1)
                      else if e = CHR ''-'' then Some (CChar 45, r1)
                      else map_option (\<lambda>(n, r2). (CChar n, r2)) (char_escape u e r1)))
          else Some (CChar (of_char c), r))"


definition class_range :: "bool \<Rightarrow> citem \<Rightarrow> citem \<Rightarrow> citem list option" where
  "class_range u a b =
     (case (a, b) of
        (CChar lo, CChar hi) \<Rightarrow> if lo \<le> hi then Some [CRange lo hi] else None
      | _ \<Rightarrow> if u then None else Some [a, CChar 45, b])"

lemma dropWhile_Cons_shorter: "dropWhile P xs = y # ys \<Longrightarrow> length ys < length xs"
  using length_dropWhile_le [of P xs] by simp

lemma lex_brace_shorter: "lex_brace cs = Some (lo, hi, r) \<Longrightarrow> length r < length cs"
  by (auto simp add: lex_brace_def Let_def simp del: dropWhile_eq_Nil_conv
      split: if_splits list.splits dest!: dropWhile_Cons_shorter)

lemma lex_lazy_shorter: "lex_lazy cs = (g, r) \<Longrightarrow> length r \<le> length cs"
  by (auto simp: lex_lazy_def split: list.splits if_splits)

lemma char_escape_shorter: "char_escape u c r = Some (n, r1) \<Longrightarrow> length r1 \<le> length r"
proof -
  have d: "length (tl (dropWhile P (tl xs))) \<le> length xs" for P and xs :: string
    using length_dropWhile_le [of P "tl xs"] by simp
  assume "char_escape u c r = Some (n, r1)"
  then show ?thesis
    using d [of "\<lambda>d. d \<noteq> CHR ''}''" r]
    by (auto simp: char_escape_def Let_def split: if_splits option.splits)
qed

lemma class_atom_shorter: "class_atom u s = Some (it, r) \<Longrightarrow> length r < length s"
  by (auto simp: class_atom_def split: list.splits if_splits option.splits
           dest!: char_escape_shorter)

text \<open>The members of a class up to the closing bracket.\<close>

function lex_class_items :: "bool \<Rightarrow> string \<Rightarrow> (citem list \<times> string) option" where
  "lex_class_items u s =
     (case s of
        [] \<Rightarrow> None
      | c # cs \<Rightarrow>
          if c = CHR '']'' then Some ([], cs)
          else
            (case class_atom u s of
               None \<Rightarrow> None
             | Some (a, r) \<Rightarrow>
                 if r \<noteq> [] \<and> hd r = CHR ''-'' \<and> tl r \<noteq> [] \<and> hd (tl r) \<noteq> CHR '']''
                 then
                   (case class_atom u (tl r) of
                      None \<Rightarrow> None
                    | Some (b, r2) \<Rightarrow>
                        (case class_range u a b of
                           None \<Rightarrow> None
                         | Some its \<Rightarrow>
                             map_option (\<lambda>(more, r3). (its @ more, r3)) (lex_class_items u r2)))
                 else map_option (\<lambda>(more, r3). (a # more, r3)) (lex_class_items u r)))"
  by pat_completeness auto
termination
proof (relation "measure (\<lambda>(u, s). length s)", goal_cases)
  case 1
  show ?case by simp
next
  case (2 u s c cs x2 a r x2a b r2 its)
  from 2 have "class_atom u s = Some (a, r)" and "class_atom u (tl r) = Some (b, r2)"
    by simp_all
  from class_atom_shorter [OF this(1)] class_atom_shorter [OF this(2)]
  show ?case by simp
next
  case (3 u s c cs x2 a r)
  from 3 have "class_atom u s = Some (a, r)" by simp
  from class_atom_shorter [OF this] show ?case by simp
qed

lemma lex_class_items_shorter:
  "lex_class_items u s = Some (its, r) \<Longrightarrow> length r < length s"
proof (induction u s arbitrary: its r rule: lex_class_items.induct)
  case (1 u s)
  show ?case
  proof (cases s)
    case Nil
    with "1.prems" show ?thesis by simp
  next
    case (Cons c cs)
    show ?thesis
    proof (cases "c = CHR '']''")
      case True
      with "1.prems" Cons show ?thesis by simp
    next
      case False
      from "1.prems" Cons False obtain a r0 where ca: "class_atom u s = Some (a, r0)"
        by (cases "class_atom u s") auto
      have l0: "length r0 < length s" using class_atom_shorter [OF ca] .
      show ?thesis
      proof (cases "r0 \<noteq> [] \<and> hd r0 = CHR ''-'' \<and> tl r0 \<noteq> [] \<and> hd (tl r0) \<noteq> CHR '']''")
        case True
        from "1.prems" Cons False ca True obtain b r2 where cb: "class_atom u (tl r0) = Some (b, r2)"
          by (cases "class_atom u (tl r0)") auto
        from "1.prems" Cons False ca True cb obtain rng where cr: "class_range u a b = Some rng"
          by (cases "class_range u a b") auto
        from "1.prems" Cons False ca True cb cr obtain more where
          rec: "lex_class_items u r2 = Some (more, r)"
          by (cases "lex_class_items u r2") auto
        have "length r < length r2"
          using "1.IH"(1) [OF Cons False ca refl True cb refl cr rec] .
        moreover have "length r2 < length (tl r0)" using class_atom_shorter [OF cb] .
        ultimately show ?thesis using l0 by simp
      next
        case F2: False
        from "1.prems" Cons False ca F2 obtain more where
          rec: "lex_class_items u r0 = Some (more, r)"
          by (cases "lex_class_items u r0") (auto split: if_splits)
        have "length r < length r0"
          using "1.IH"(2) [OF Cons False ca refl F2 rec] .
        then show ?thesis using l0 by simp
      qed
    qed
  qed
qed


text \<open>A class after its opening bracket: an optional \<^verbatim>\<open>^\<close>, then the members.\<close>

definition lex_class :: "bool \<Rightarrow> string \<Rightarrow> (atom \<times> string) option" where
  "lex_class u cs =
     (if cs \<noteq> [] \<and> hd cs = CHR ''^''
      then map_option (\<lambda>(its, r). (AClass True its, r)) (lex_class_items u (tl cs))
      else map_option (\<lambda>(its, r). (AClass False its, r)) (lex_class_items u cs))"

text \<open>An escape outside a class, after its backslash.\<close>

definition lex_escape :: "bool \<Rightarrow> string \<Rightarrow> (atom \<times> string) option" where
  "lex_escape u cs =
     (case cs of
        [] \<Rightarrow> None
      | e # r \<Rightarrow>
          (case class_escape e of
             Some it \<Rightarrow> Some (AClass False [it], r)
           | None \<Rightarrow> map_option (\<lambda>(n, r1). (AChar n, r1)) (char_escape u e r)))"

text \<open>What follows an opening parenthesis decides the kind of the group.\<close>

definition lex_group :: "string \<Rightarrow> (gkind \<times> string) option" where
  "lex_group cs =
     (if take 2 cs = ''?:'' then Some (NonCapture, drop 2 cs)
      else if take 2 cs = ''?='' then Some (LookPos, drop 2 cs)
      else if take 2 cs = ''?!'' then Some (LookNeg, drop 2 cs)
      else if cs \<noteq> [] \<and> hd cs = CHR ''?'' then None
      else Some (Capture, cs))"

lemma lex_class_shorter: "lex_class u cs = Some (a, r) \<Longrightarrow> length r < length cs"
  by (cases cs)
     (auto simp: lex_class_def simp del: lex_class_items.simps split: if_splits
           dest!: lex_class_items_shorter)

lemma lex_escape_shorter: "lex_escape u cs = Some (a, r) \<Longrightarrow> length r < length cs"
  by (auto simp: lex_escape_def split: list.splits option.splits dest!: char_escape_shorter)

lemma lex_group_shorter: "lex_group cs = Some (k, r) \<Longrightarrow> length r \<le> length cs"
  by (auto simp: lex_group_def split: if_splits)

definition tok :: "token \<Rightarrow> token list option \<Rightarrow> token list option" where
  "tok t rest = map_option ((#) t) rest"

function lex :: "bool \<Rightarrow> string \<Rightarrow> token list option" where
  "lex u s =
     (case s of
        [] \<Rightarrow> Some []
      | c # cs \<Rightarrow>
          if c = CHR ''^'' then tok TBOL (lex u cs)
          else if c = CHR ''$'' then tok TEOL (lex u cs)
          else if c = CHR ''.'' then tok (TAtom ADot) (lex u cs)
          else if c = CHR ''|'' then tok TBar (lex u cs)
          else if c = CHR '')'' then tok TClose (lex u cs)
          else if c = CHR ''('' then
            (case lex_group cs of
               None \<Rightarrow> None
             | Some (k, r) \<Rightarrow> tok (TOpen k) (lex u r))
          else if c = CHR ''*'' then
            (case lex_lazy cs of (g, r) \<Rightarrow> tok (TQuant 0 None g) (lex u r))
          else if c = CHR ''+'' then
            (case lex_lazy cs of (g, r) \<Rightarrow> tok (TQuant 1 None g) (lex u r))
          else if c = CHR ''?'' then
            (case lex_lazy cs of (g, r) \<Rightarrow> tok (TQuant 0 (Some 1) g) (lex u r))
          else if c = CHR ''{'' then
            (case lex_brace cs of
               Some (lo, hi, r) \<Rightarrow>
                 (case lex_lazy r of (g, r1) \<Rightarrow> tok (TQuant lo hi g) (lex u r1))
             | None \<Rightarrow> if u then None else tok (TAtom (AChar (of_char c))) (lex u cs))
          else if c = CHR ''['' then
            (case lex_class u cs of
               None \<Rightarrow> None
             | Some (a, r) \<Rightarrow> tok (TAtom a) (lex u r))
          else if c = CHR 0x5C then
            (case lex_escape u cs of
               None \<Rightarrow> None
             | Some (a, r) \<Rightarrow> tok (TAtom a) (lex u r))
          else if u \<and> (c = CHR '']'' \<or> c = CHR ''}'') then None
          else tok (TAtom (AChar (of_char c))) (lex u cs))"
  by pat_completeness auto
termination
proof (relation "measure (\<lambda>(u, s). length s)", goal_cases)
  case 1
  show ?case by simp
qed (auto dest!: lex_group_shorter lex_lazy_shorter [OF sym] lex_brace_shorter
       lex_class_shorter lex_escape_shorter)

declare lex.simps [simp del] lex_class_items.simps [simp del]


text \<open>
  The second pass builds the pattern from the tokens with a stack of open groups.  A
  frame holds the kind of its group, the alternatives closed so far and the terms of the
  alternative being read, both latest first.
\<close>

type_synonym frame = "gkind \<times> regex list \<times> regex list"

fun seq_of :: "regex list \<Rightarrow> regex" where
  "seq_of [] = Empty"
| "seq_of [r] = r"
| "seq_of (r # rs) = Seq r (seq_of rs)"

fun alt_of :: "regex list \<Rightarrow> regex" where
  "alt_of [] = Empty"
| "alt_of [r] = r"
| "alt_of (r # rs) = Alt r (alt_of rs)"

definition disjunction :: "regex list \<Rightarrow> regex list \<Rightarrow> regex" where
  "disjunction alts cur = alt_of (rev (seq_of (rev cur) # alts))"

fun wrap :: "gkind \<Rightarrow> regex \<Rightarrow> regex" where
  "wrap Capture r = Group True r"
| "wrap NonCapture r = Group False r"
| "wrap LookPos r = Look True r"
| "wrap LookNeg r = Look False r"

text \<open>
  What a quantifier may follow: an atom or a group, and without the \<^verbatim>\<open>u\<close> flag a
  look-ahead; not \<^verbatim>\<open>^\<close>, \<^verbatim>\<open>$\<close> or a term that already has its quantifier.
\<close>

fun quantifiable :: "bool \<Rightarrow> regex \<Rightarrow> bool" where
  "quantifiable u (Atom a) = True"
| "quantifiable u (Group c r) = True"
| "quantifiable u (Look p r) = (\<not> u)"
| "quantifiable u r = False"

fun parse_tokens :: "bool \<Rightarrow> token list \<Rightarrow> frame list \<Rightarrow> regex option" where
  "parse_tokens u [] [(k, alts, cur)] = Some (disjunction alts cur)"
| "parse_tokens u [] st = None"
| "parse_tokens u (t # ts) [] = None"
| "parse_tokens u (TAtom a # ts) ((k, alts, cur) # st) =
     parse_tokens u ts ((k, alts, Atom a # cur) # st)"
| "parse_tokens u (TBOL # ts) ((k, alts, cur) # st) =
     parse_tokens u ts ((k, alts, BOL # cur) # st)"
| "parse_tokens u (TEOL # ts) ((k, alts, cur) # st) =
     parse_tokens u ts ((k, alts, EOL # cur) # st)"
| "parse_tokens u (TBar # ts) ((k, alts, cur) # st) =
     parse_tokens u ts ((k, seq_of (rev cur) # alts, []) # st)"
| "parse_tokens u (TOpen k1 # ts) st =
     parse_tokens u ts ((k1, [], []) # st)"
| "parse_tokens u (TClose # ts) [fr] = None"
| "parse_tokens u (TClose # ts) ((k, alts, cur) # (k2, alts2, cur2) # st) =
     parse_tokens u ts ((k2, alts2, wrap k (disjunction alts cur) # cur2) # st)"
| "parse_tokens u (TQuant lo hi g # ts) ((k, alts, []) # st) = None"
| "parse_tokens u (TQuant lo hi g # ts) ((k, alts, r # cur) # st) =
     (if quantifiable u r \<and> (case hi of None \<Rightarrow> True | Some h \<Rightarrow> lo \<le> h)
      then parse_tokens u ts ((k, alts, Rep lo hi g r # cur) # st)
      else None)"

text \<open>
  \<^verbatim>\<open>new RegExp(source, flags)\<close>: \<open>None\<close> stands for the \<^verbatim>\<open>SyntaxError\<close> the
  constructor throws.
\<close>

definition RegExp_new :: "string \<Rightarrow> flags \<Rightarrow> regexp option" where
  "RegExp_new source fl =
     (case lex (unicodeMode fl) source of
        None \<Rightarrow> None
      | Some ts \<Rightarrow>
          (case parse_tokens (unicodeMode fl) ts [(NonCapture, [], [])] of
             None \<Rightarrow> None
           | Some r \<Rightarrow> Some \<lparr>rx_flags = fl, rx_ast = r\<rparr>))"


section \<open>Values, results and faults of the validator\<close>

text \<open>
  \<^verbatim>\<open>ValidatorMode = 'verbose' | undefined\<close>; \<open>NoMode\<close> is the call without a mode.
\<close>

datatype ValidatorMode = Verbose | NoMode

text \<open>
  \<^verbatim>\<open>ValidationResult\<close>.  The optional fields are options.  Of \<^verbatim>\<open>matches\<close>, the
  value of \<^verbatim>\<open>value.match(pattern)\<close>, the model keeps whether it is \<^verbatim>\<open>null\<close> or a
  match array: no operation of the validator looks inside the array.
\<close>

datatype match_result = Null | MatchArray

record ValidationResult =
  isValid :: bool
  message :: "string option"
  matches :: "match_result option"

text \<open>The return type \<^verbatim>\<open>boolean | ValidationResult\<close>.\<close>

datatype result = Plain bool | Detailed ValidationResult

text \<open>
  What a property of the rule tables can hold at run time: a compiled pattern,
  \<^verbatim>\<open>undefined\<close> for a key that is nowhere, or one of the members every object
  inherits from \<^verbatim>\<open>Object.prototype\<close>, which are functions or objects without a
  \<^verbatim>\<open>test\<close> method.
\<close>

datatype jsvalue = Undefined | RegExpObject regexp | OtherObject

datatype fault = TypeError string | SyntaxError string

fun fault_text :: "fault \<Rightarrow> string" where
  "fault_text (TypeError m) = ''TypeError: '' @ m"
| "fault_text (SyntaxError m) = ''SyntaxError: '' @ m"

text \<open>The characters a HOL string literal cannot hold.\<close>

definition bs :: string where "bs = [CHR 0x5C]"
definition dq :: string where "dq = [CHR 0x22]"
definition sq :: string where "sq = [CHR 0x27]"
definition bq :: string where "bq = [CHR 0x60]"

text \<open>
  \<^verbatim>\<open>pattern.test(value)\<close>.  Reading \<^verbatim>\<open>test\<close> from \<^verbatim>\<open>undefined\<close>, and calling a
  \<^verbatim>\<open>test\<close> that is not there, both throw a \<^verbatim>\<open>TypeError\<close>; the wording of the two
  messages is the engine's own (here that of V8).
\<close>

definition call_test :: "jsvalue \<Rightarrow> jsstring \<Rightarrow> fault + bool" where
  "call_test pattern v =
     (case pattern of
        Undefined \<Rightarrow>
          Inl (TypeError (''Cannot read properties of undefined (reading '' @ sq @ ''test'' @ sq @ '')''))
      | OtherObject \<Rightarrow> Inl (TypeError ''pattern.test is not a function'')
      | RegExpObject r \<Rightarrow> Inr (regexp_test r v))"

text \<open>
  \<^verbatim>\<open>value.match(pattern)\<close> for a pattern that is not global: \<^verbatim>\<open>null\<close> when no match
  exists, else the match array.  It is only reached after \<^verbatim>\<open>test\<close> has returned.
\<close>

definition string_match :: "jsstring \<Rightarrow> jsvalue \<Rightarrow> match_result" where
  "string_match v pattern =
     (case pattern of
        RegExpObject r \<Rightarrow> if regexp_test r v then MatchArray else Null
      | _ \<Rightarrow> Null)"

text \<open>
  A pattern literal of the source.  A literal the engine cannot read stops the module
  from loading at all; lemma \<open>catalog_literals_compile\<close> below shows that the reader
  accepts every literal of the source, so the \<open>None\<close> case never arises.
\<close>

definition regex_literal :: "string \<Rightarrow> flags \<Rightarrow> jsvalue" where
  "regex_literal source fl =
     (case RegExp_new source fl of Some r \<Rightarrow> RegExpObject r | None \<Rightarrow> Undefined)"

text \<open>
  \<^verbatim>\<open>table[key]\<close> on an object literal: an own property first, then the members of
  \<^verbatim>\<open>Object.prototype\<close>, else \<^verbatim>\<open>undefined\<close>.
\<close>

definition object_prototype_keys :: "jsstring list" where
  "object_prototype_keys =
     map js [''constructor'', ''__defineGetter__'', ''__defineSetter__'', ''hasOwnProperty'',
             ''__lookupGetter__'', ''__lookupSetter__'', ''isPrototypeOf'',
             ''propertyIsEnumerable'', ''toString'', ''valueOf'', ''__proto__'',
             ''toLocaleString'']"

definition get_property :: "(jsstring \<times> jsvalue) list \<Rightarrow> jsstring \<Rightarrow> jsvalue" where
  "get_property table key =
     (case map_of table key of
        Some v \<Rightarrow> v
      | None \<Rightarrow> if key \<in> set object_prototype_keys then OtherObject else Undefined)"

text \<open>\<^verbatim>\<open>a || b\<close> on these values: only \<^verbatim>\<open>undefined\<close> is falsy.\<close>

definition js_or :: "jsvalue \<Rightarrow> jsvalue \<Rightarrow> jsvalue" where
  "js_or a b = (if a = Undefined then b else a)"

section \<open>The rule tables\<close>

text \<open>
  \<^verbatim>\<open>patterns\<close> and \<^verbatim>\<open>complexPatterns\<close> of the class, and the local tables of
  \<^verbatim>\<open>isValidDate\<close>, \<^verbatim>\<open>isValidUUID\<close>, \<^verbatim>\<open>isValidSlug\<close> and \<^verbatim>\<open>isBase64\<close>, with the
  pattern texts of the source.
\<close>

definition patterns :: "(jsstring \<times> jsvalue) list" where
  "patterns =
     [(js ''email'',
       regex_literal (''^[a-zA-Z0-9._%+-]+@[a-zA-Z0-9.-]+'' @ bs @ ''.[a-zA-Z]{2,}$'') no_flags),
      (js ''date'',
       regex_literal (''^(0[1-9]|[12][0-9]|3[01])'' @ bs @ ''/(0[1-9]|1[0-2])'' @ bs @ ''/'' @ bs @ ''d{4}$'') no_flags),
      (js ''ipv4'',
       regex_literal (''^(25[0-5]|2[0-4][0-9]|[01]?[0-9][0-9]?)'' @ bs @ ''.(25[0-5]|2[0-4][0-9]|[01]?[0-9][0-9]?)'' @ bs @ ''.(25[0-5]|2[0-4][0-9]|[01]?[0-9][0-9]?)'' @ bs @ ''.(25[0-5]|2[0-4][0-9]|[01]?[0-9][0-9]?)$'') no_flags),
      (js ''ipv6'',
       regex_literal (''^(?:[0-9a-fA-F]{1,4}:){7}[0-9a-fA-F]{1,4}$'') no_flags),
      (js ''macAddress'',
       regex_literal (''^([0-9A-Fa-f]{2}[:-]){5}([0-9A-Fa-f]{2})$'') no_flags),
      (js ''url'',
       regex_literal (''^(https?:'' @ bs @ ''/'' @ bs @ ''/)(localhost|'' @ bs @ ''d{1,3}('' @ bs @ ''.'' @ bs @ ''d{1,3}){3}|([a-zA-Z0-9.-]+'' @ bs @ ''.[a-zA-Z]{2,}))(:'' @ bs @ ''d{1,5})?('' @ bs @ ''/[^'' @ bs @ ''s]*)?$'') no_flags),
      (js ''username'',
       regex_literal (''^[a-zA-Z0-9._-]{3,16}$'') no_flags),
      (js ''hexColor'',
       regex_literal (''^#?([a-fA-F0-9]{6}|[a-fA-F0-9]{3})$'') no_flags),
      (js ''onlyIntegers'',
       regex_literal (''^-?'' @ bs @ ''d+$'') no_flags),
      (js ''onlyAlpha'',
       regex_literal (''^[a-zA-Z]+$'') no_flags),
      (js ''emoji'',
       regex_literal (''^['' @ bs @ ''u{1F600}-'' @ bs @ ''u{1F64F}'' @ bs @ ''u{1F300}-'' @ bs @ ''u{1F5FF}'' @ bs @ ''u{1F680}-'' @ bs @ ''u{1F6FF}'' @ bs @ ''u{1F700}-'' @ bs @ ''u{1F77F}'' @ bs @ ''u{1F780}-'' @ bs @ ''u{1F7FF}'' @ bs @ ''u{1F800}-'' @ bs @ ''u{1F8FF}'' @ bs @ ''u{1F900}-'' @ bs @ ''u{1F9FF}'' @ bs @ ''u{1FA00}-'' @ bs @ ''u{1FA6F}'' @ bs @ ''u{1FA70}-'' @ bs @ ''u{1FAFF}'' @ bs @ ''u{2600}-'' @ bs @ ''u{26FF}'' @ bs @ ''u{2700}-'' @ bs @ ''u{27BF}'' @ bs @ ''u{2300}-'' @ bs @ ''u{23FF}'' @ bs @ ''u{2B50}'' @ bs @ ''u{203C}'' @ bs @ ''u{2049}'' @ bs @ ''u{2122}'' @ bs @ ''u{2139}]+$'') flag_u),
      (js ''ansiArt'',
       regex_literal (''^['' @ bs @ ''x20-'' @ bs @ ''x7E'' @ bs @ ''x0A'' @ bs @ ''x0D]+$'') no_flags),
      (js ''jwt'',
       regex_literal (''^[A-Za-z0-9-_]+'' @ bs @ ''.[A-Za-z0-9-_]+'' @ bs @ ''.[A-Za-z0-9-_]*$'') no_flags),
      (js ''domain'',
       regex_literal (''^(?:[a-zA-Z0-9](?:[a-zA-Z0-9-]{0,61}[a-zA-Z0-9])?'' @ bs @ ''.)+[a-zA-Z]{2,}$'') no_flags),
      (js ''semver'',
       regex_literal (''^(0|[1-9]'' @ bs @ ''d*)'' @ bs @ ''.(0|[1-9]'' @ bs @ ''d*)'' @ bs @ ''.(0|[1-9]'' @ bs @ ''d*)(?:-((?:0|[1-9]'' @ bs @ ''d*|'' @ bs @ ''d*[a-zA-Z-][0-9a-zA-Z-]*)(?:'' @ bs @ ''.(?:0|[1-9]'' @ bs @ ''d*|'' @ bs @ ''d*[a-zA-Z-][0-9a-zA-Z-]*))*))?(?:'' @ bs @ ''+([0-9a-zA-Z-]+(?:'' @ bs @ ''.[0-9a-zA-Z-]+)*))?$'') no_flags),
      (js ''phone'',
       regex_literal (''^(?:'' @ bs @ ''+?([1-9]'' @ bs @ ''d{0,2}))?[-.'' @ bs @ ''s]?'' @ bs @ ''(?'' @ bs @ ''d{2,4}'' @ bs @ '')?[-.'' @ bs @ ''s]?'' @ bs @ ''d{6,10}$'') no_flags),
      (js ''creditCard'',
       regex_literal (''^(?:4[0-9]{12}(?:[0-9]{3})?|5[1-5][0-9]{14}|3[47][0-9]{13}|6(?:011|5[0-9]{2})[0-9]{12})$'') no_flags),
      (js ''ssn'',
       regex_literal (''^(?!000|666|9'' @ bs @ ''d{2})'' @ bs @ ''d{3}-(?!00)'' @ bs @ ''d{2}-(?!0000)'' @ bs @ ''d{4}$'') no_flags),
      (js ''isbn'',
       regex_literal (''^(?:'' @ bs @ ''d[- ]?){9}['' @ bs @ ''dXx]$|^(?:'' @ bs @ ''d[- ]?){13}$'') no_flags),
      (js ''time'',
       regex_literal (''^(?:[01]'' @ bs @ ''d|2[0-3]):[0-5]'' @ bs @ ''d(:[0-5]'' @ bs @ ''d)?( ?(?:AM|PM))?$'') flag_i),
      (js ''positiveInteger'',
       regex_literal (''^'' @ bs @ ''d+$'') no_flags),
      (js ''negativeInteger'',
       regex_literal (''^-'' @ bs @ ''d+$'') no_flags),
      (js ''nonZeroInteger'',
       regex_literal (''^-?[1-9]'' @ bs @ ''d*$'') no_flags),
      (js ''float'',
       regex_literal (''^-?'' @ bs @ ''d+('' @ bs @ ''.'' @ bs @ ''d+)?$'') no_flags),
      (js ''positiveFloat'',
       regex_literal (''^'' @ bs @ ''d+('' @ bs @ ''.'' @ bs @ ''d+)?$'') no_flags),
      (js ''negativeFloat'',
       regex_literal (''^-'' @ bs @ ''d+('' @ bs @ ''.'' @ bs @ ''d+)?$'') no_flags),
      (js ''alphanumeric'',
       regex_literal (''^[a-zA-Z0-9]+$'') no_flags),
      (js ''hexadecimal'',
       regex_literal (''^[0-9a-fA-F]+$'') no_flags),
      (js ''binary'',
       regex_literal (''^[01]+$'') no_flags),
      (js ''md5'',
       regex_literal (''^[a-f0-9]{32}$'') flag_i),
      (js ''sha1'',
       regex_literal (''^[a-f0-9]{40}$'') flag_i),
      (js ''sha256'',
       regex_literal (''^[a-f0-9]{64}$'') flag_i),
      (js ''htmlTag'',
       regex_literal (''<'' @ bs @ ''/?[a-z][^>]*>'') flag_i),
      (js ''filePath'',
       regex_literal (''^(?:[a-zA-Z]:)?(?:'' @ bs @ ''/|'' @ bs @ bs @ '')?(?:[^'' @ bs @ bs @ ''/:*?'' @ dq @ ''<>|'' @ bs @ ''r'' @ bs @ ''n]+(?:'' @ bs @ ''/|'' @ bs @ bs @ '')?)+$'') no_flags),
      (js ''fileName'',
       regex_literal (''^[^'' @ bs @ bs @ ''/:*?'' @ dq @ ''<>|'' @ bs @ ''r'' @ bs @ ''n]+'' @ bs @ ''.[^'' @ bs @ bs @ ''/:*?'' @ dq @ ''<>|'' @ bs @ ''r'' @ bs @ ''n]+$'') no_flags),
      (js ''kebabCase'',
       regex_literal (''^[a-z][a-z0-9]*(?:-[a-z0-9]+)*$'') no_flags),
      (js ''camelCase'',
       regex_literal (''^[a-z][a-zA-Z0-9]*$'') no_flags),
      (js ''snakeCase'',
       regex_literal (''^[a-z][a-z0-9]*(?:_[a-z0-9]+)*$'') no_flags),
      (js ''pascalCase'',
       regex_literal (''^[A-Z][a-zA-Z0-9]*$'') no_flags)]"

definition complexPatterns_postalCode :: "(jsstring \<times> jsvalue) list" where
  "complexPatterns_postalCode =
     [(js ''US'',
       regex_literal (''^'' @ bs @ ''d{5}(-'' @ bs @ ''d{4})?$'') no_flags),
      (js ''UK'',
       regex_literal (''^[A-Z]{1,2}'' @ bs @ ''d[A-Z'' @ bs @ ''d]? ?'' @ bs @ ''d[A-Z]{2}$'') flag_i),
      (js ''CA'',
       regex_literal (''^[ABCEGHJ-NPRSTVXY]'' @ bs @ ''d[ABCEGHJ-NPRSTV-Z] ?'' @ bs @ ''d[ABCEGHJ-NPRSTV-Z]'' @ bs @ ''d$'') flag_i),
      (js ''ANY'',
       regex_literal (''^[A-Z0-9]{3,10}$'') flag_i)]"

definition complexPatterns_crypto :: "(jsstring \<times> jsvalue) list" where
  "complexPatterns_crypto =
     [(js ''BTC'',
       regex_literal (''^[13][a-km-zA-HJ-NP-Z1-9]{25,34}$'') no_flags),
      (js ''ETH'',
       regex_literal (''^0x[a-fA-F0-9]{40}$'') no_flags)]"

definition complexPatterns_password :: "(jsstring \<times> jsvalue) list" where
  "complexPatterns_password =
     [(js ''simple'',
       regex_literal (''^.{6,}$'') no_flags),
      (js ''medium'',
       regex_literal (''^.{8,}$'') no_flags),
      (js ''complex'',
       regex_literal (''^(?=.*[a-z])(?=.*[A-Z])(?=.*'' @ bs @ ''d)(?=.*[@$!%*?&])[A-Za-z'' @ bs @ ''d@$!%*?&!@#%^&*()_+'' @ bs @ ''-=~'' @ bq @ ''{}['' @ bs @ '']:;'' @ dq @ sq @ ''<>,.?'' @ bs @ ''/]{8,}$'') no_flags)]"

definition complexPatterns_coordinates :: "(jsstring \<times> jsvalue) list" where
  "complexPatterns_coordinates =
     [(js ''latitude'',
       regex_literal (''^-?([1-8]?'' @ bs @ ''d(?:'' @ bs @ ''.'' @ bs @ ''d+)?|90(?:'' @ bs @ ''.0+)?)$'') no_flags),
      (js ''longitude'',
       regex_literal (''^-?((1[0-7]|[1-9])?'' @ bs @ ''d(?:'' @ bs @ ''.'' @ bs @ ''d+)?|180(?:'' @ bs @ ''.0+)?)$'') no_flags)]"

definition isValidDate_patterns :: "(jsstring \<times> jsvalue) list" where
  "isValidDate_patterns =
     [(js ''DD/MM/YYYY'',
       regex_literal (''^(0[1-9]|[12][0-9]|3[01])'' @ bs @ ''/(0[1-9]|1[0-2])'' @ bs @ ''/'' @ bs @ ''d{4}$'') no_flags),
      (js ''MM/DD/YYYY'',
       regex_literal (''^(0[1-9]|1[0-2])'' @ bs @ ''/(0[1-9]|[12][0-9]|3[01])'' @ bs @ ''/'' @ bs @ ''d{4}$'') no_flags),
      (js ''YYYY-MM-DD'',
       regex_literal (''^'' @ bs @ ''d{4}-(0[1-9]|1[0-2])-(0[1-9]|[12][0-9]|3[01])$'') no_flags),
      (js ''YYYY/MM/DD'',
       regex_literal (''^'' @ bs @ ''d{4}'' @ bs @ ''/(0[1-9]|1[0-2])'' @ bs @ ''/(0[1-9]|[12][0-9]|3[01])$'') no_flags)]"

definition uuidPattern :: jsvalue where
  "uuidPattern = regex_literal (''^[0-9a-f]{8}-[0-9a-f]{4}-[1-5][0-9a-f]{3}-[89ab][0-9a-f]{3}-[0-9a-f]{12}$'') flag_i"

definition slugPattern :: jsvalue where
  "slugPattern = regex_literal (''^[a-z0-9]+(?:-[a-z0-9]+)*$'') no_flags"

definition base64Pattern :: jsvalue where
  "base64Pattern = regex_literal (''^(?:[A-Za-z0-9+/]{4})*(?:[A-Za-z0-9+/]{2}==|[A-Za-z0-9+/]{3}=)?$'') no_flags"

section \<open>The validator\<close>

text \<open>
  \<^verbatim>\<open>ValidatorOptions\<close>, every field optional, and the instance, whose only field set
  by the constructor is \<^verbatim>\<open>options\<close>: the defaults with the caller's options spread
  over them.  Times are integral milliseconds.
\<close>

record ValidatorOptions =
  timeout :: "int option"
  caseSensitive :: "bool option"
  multiline :: "bool option"
  unicode :: "bool option"

definition no_options :: ValidatorOptions where
  "no_options = \<lparr>timeout = None, caseSensitive = None, multiline = None, unicode = None\<rparr>"

record RegExpValidator =
  options :: ValidatorOptions

definition or_default :: "'a \<Rightarrow> 'a option \<Rightarrow> 'a option" where
  "or_default d x = (case x of None \<Rightarrow> Some d | Some v \<Rightarrow> Some v)"

definition RegExpValidator_new :: "ValidatorOptions \<Rightarrow> RegExpValidator" where
  "RegExpValidator_new opts =
     \<lparr>options =
        \<lparr>timeout = or_default 5000 (timeout opts),
         caseSensitive = or_default True (caseSensitive opts),
         multiline = or_default False (multiline opts),
         unicode = or_default True (unicode opts)\<rparr>\<rparr>"

text \<open>
  \<^verbatim>\<open>this.options.timeout || 5000\<close>: a missing timeout and the timeout 0 are falsy.
\<close>

definition timeout_or_5000 :: "RegExpValidator \<Rightarrow> int" where
  "timeout_or_5000 self =
     (case timeout (options self) of
        None \<Rightarrow> 5000
      | Some t \<Rightarrow> if t = 0 then 5000 else t)"

text \<open>
  The clock of a call: \<open>clk n\<close> is what the \<open>n\<close>-th reading of \<^verbatim>\<open>Date.now()\<close>
  returns.  \<^verbatim>\<open>validate\<close> reads it twice, for \<^verbatim>\<open>startTime\<close> and for the elapsed-time
  check, both before the pattern is evaluated, and never again.
\<close>

type_synonym clock = "nat \<Rightarrow> int"

definition later :: "nat \<Rightarrow> clock \<Rightarrow> clock" where
  "later n clk = (\<lambda>i. clk (i + n))"

definition validate :: "RegExpValidator \<Rightarrow> clock \<Rightarrow> jsstring \<Rightarrow> jsvalue \<Rightarrow> ValidatorMode \<Rightarrow> result" where
  "validate self clk v pattern mode =
     (let startTime = clk 0 in
      if clk 1 - startTime > timeout_or_5000 self
      then (if mode = Verbose
            then Detailed \<lparr>isValid = False, message = Some ''Validation timeout exceeded'',
                            matches = None\<rparr>
            else Plain False)
      else
        (case call_test pattern v of
           Inr valid \<Rightarrow>
             if mode = Verbose
             then Detailed
                    \<lparr>isValid = valid,
                     message = Some (if valid then ''Validation successful'' else ''Validation failed''),
                     matches = Some (string_match v pattern)\<rparr>
             else Plain valid
         | Inl error \<Rightarrow>
             if mode = Verbose
             then Detailed \<lparr>isValid = False,
                             message = Some (''Validation error: '' @ fault_text error),
                             matches = None\<rparr>
             else Plain False))"

text \<open>
  The same call with its course written down.  The call starts at time \<open>t0\<close>, the first
  reading of the clock; \<open>overhead\<close> is the time that passes up to the second reading, the
  one of the elapsed-time check.  The call \<^verbatim>\<open>pattern.test(value)\<close> comes after the check
  and takes \<open>test_duration\<close>, whether it returns or throws; in verbose mode
  \<^verbatim>\<open>value.match(pattern)\<close> follows a \<^verbatim>\<open>test\<close> that returned and takes
  \<open>match_duration\<close>.  \<open>events\<close> lists, in order, the readings of the clock and the
  evaluations of the pattern the call made (\<open>TestCalled\<close>: the statement that calls
  \<^verbatim>\<open>test\<close> was entered), and \<open>returned_at\<close> is the time at which it returned.  No
  statement of \<^verbatim>\<open>validate\<close> after the check reads the clock.
\<close>

datatype event = ClockRead int | TestCalled | MatchCalled

record timing =
  overhead :: int
  test_duration :: int
  match_duration :: int

record run =
  outcome :: result
  events :: "event list"
  returned_at :: int

definition validate_run :: "RegExpValidator \<Rightarrow> int \<Rightarrow> timing \<Rightarrow> jsstring \<Rightarrow> jsvalue \<Rightarrow> ValidatorMode \<Rightarrow> run" where
  "validate_run self t0 tm v pattern mode =
     (let startTime = t0;
          now = t0 + overhead tm;
          before = [ClockRead startTime, ClockRead now]
      in if now - startTime > timeout_or_5000 self
         then \<lparr>outcome =
                 (if mode = Verbose
                  then Detailed \<lparr>isValid = False, message = Some ''Validation timeout exceeded'',
                                  matches = None\<rparr>
                  else Plain False),
               events = before, returned_at = now\<rparr>
         else
           (case call_test pattern v of
              Inr valid \<Rightarrow>
                if mode = Verbose
                then \<lparr>outcome =
                        Detailed
                          \<lparr>isValid = valid,
                           message = Some (if valid then ''Validation successful'' else ''Validation failed''),
                           matches = Some (string_match v pattern)\<rparr>,
                      events = before @ [TestCalled, MatchCalled],
                      returned_at = now + test_duration tm + match_duration tm\<rparr>
                else \<lparr>outcome = Plain valid, events = before @ [TestCalled],
                      returned_at = now + test_duration tm\<rparr>
            | Inl error \<Rightarrow>
                \<lparr>outcome =
                   (if mode = Verbose
                    then Detailed \<lparr>isValid = False,
                                    message = Some (''Validation error: '' @ fault_text error),
                                    matches = None\<rparr>
                    else Plain False),
                 events = before @ [TestCalled], returned_at = now + test_duration tm\<rparr>))"

definition isValid_pattern :: "RegExpValidator \<Rightarrow> clock \<Rightarrow> jsstring \<Rightarrow> jsvalue \<Rightarrow> ValidatorMode \<Rightarrow> result" where
  "isValid_pattern self clk v pattern mode = validate self clk v pattern mode"

definition isValidEmail :: "RegExpValidator \<Rightarrow> clock \<Rightarrow> jsstring \<Rightarrow> ValidatorMode \<Rightarrow> result" where
  "isValidEmail self clk email mode = validate self clk email (get_property patterns (js ''email'')) mode"

definition isValidIPv4 :: "RegExpValidator \<Rightarrow> clock \<Rightarrow> jsstring \<Rightarrow> ValidatorMode \<Rightarrow> result" where
  "isValidIPv4 self clk ip mode = validate self clk ip (get_property patterns (js ''ipv4'')) mode"

definition isValidIPv6 :: "RegExpValidator \<Rightarrow> clock \<Rightarrow> jsstring \<Rightarrow> ValidatorMode \<Rightarrow> result" where
  "isValidIPv6 self clk ip mode = validate self clk ip (get_property patterns (js ''ipv6'')) mode"

definition isValidMacAddress :: "RegExpValidator \<Rightarrow> clock \<Rightarrow> jsstring \<Rightarrow> ValidatorMode \<Rightarrow> result" where
  "isValidMacAddress self clk mac mode = validate self clk mac (get_property patterns (js ''macAddress'')) mode"

definition isValidUrl :: "RegExpValidator \<Rightarrow> clock \<Rightarrow> jsstring \<Rightarrow> ValidatorMode \<Rightarrow> result" where
  "isValidUrl self clk url mode = validate self clk url (get_property patterns (js ''url'')) mode"

definition isValidUsername :: "RegExpValidator \<Rightarrow> clock \<Rightarrow> jsstring \<Rightarrow> ValidatorMode \<Rightarrow> result" where
  "isValidUsername self clk name mode = validate self clk name (get_property patterns (js ''username'')) mode"

definition isValidHexColor :: "RegExpValidator \<Rightarrow> clock \<Rightarrow> jsstring \<Rightarrow> ValidatorMode \<Rightarrow> result" where
  "isValidHexColor self clk color mode = validate self clk color (get_property patterns (js ''hexColor'')) mode"

definition isInteger :: "RegExpValidator \<Rightarrow> clock \<Rightarrow> jsstring \<Rightarrow> ValidatorMode \<Rightarrow> result" where
  "isInteger self clk value mode = validate self clk value (get_property patterns (js ''onlyIntegers'')) mode"

definition isAlpha :: "RegExpValidator \<Rightarrow> clock \<Rightarrow> jsstring \<Rightarrow> ValidatorMode \<Rightarrow> result" where
  "isAlpha self clk value mode = validate self clk value (get_property patterns (js ''onlyAlpha'')) mode"

definition isEmoji :: "RegExpValidator \<Rightarrow> clock \<Rightarrow> jsstring \<Rightarrow> ValidatorMode \<Rightarrow> result" where
  "isEmoji self clk value mode = validate self clk value (get_property patterns (js ''emoji'')) mode"

definition isAnsiArt :: "RegExpValidator \<Rightarrow> clock \<Rightarrow> jsstring \<Rightarrow> ValidatorMode \<Rightarrow> result" where
  "isAnsiArt self clk value mode = validate self clk value (get_property patterns (js ''ansiArt'')) mode"

definition isValidJwt :: "RegExpValidator \<Rightarrow> clock \<Rightarrow> jsstring \<Rightarrow> ValidatorMode \<Rightarrow> result" where
  "isValidJwt self clk jwt mode = validate self clk jwt (get_property patterns (js ''jwt'')) mode"

definition isValidDomain :: "RegExpValidator \<Rightarrow> clock \<Rightarrow> jsstring \<Rightarrow> ValidatorMode \<Rightarrow> result" where
  "isValidDomain self clk domain mode = validate self clk domain (get_property patterns (js ''domain'')) mode"

definition isValidSemver :: "RegExpValidator \<Rightarrow> clock \<Rightarrow> jsstring \<Rightarrow> ValidatorMode \<Rightarrow> result" where
  "isValidSemver self clk version mode = validate self clk version (get_property patterns (js ''semver'')) mode"

definition isValidPhoneNumber :: "RegExpValidator \<Rightarrow> clock \<Rightarrow> jsstring \<Rightarrow> ValidatorMode \<Rightarrow> result" where
  "isValidPhoneNumber self clk phone mode = validate self clk phone (get_property patterns (js ''phone'')) mode"

definition isValidCreditCard :: "RegExpValidator \<Rightarrow> clock \<Rightarrow> jsstring \<Rightarrow> ValidatorMode \<Rightarrow> result" where
  "isValidCreditCard self clk cardno mode = validate self clk cardno (get_property patterns (js ''creditCard'')) mode"

definition isValidSSN :: "RegExpValidator \<Rightarrow> clock \<Rightarrow> jsstring \<Rightarrow> ValidatorMode \<Rightarrow> result" where
  "isValidSSN self clk ssn mode = validate self clk ssn (get_property patterns (js ''ssn'')) mode"

definition isValidISBN :: "RegExpValidator \<Rightarrow> clock \<Rightarrow> jsstring \<Rightarrow> ValidatorMode \<Rightarrow> result" where
  "isValidISBN self clk isbn mode = validate self clk isbn (get_property patterns (js ''isbn'')) mode"

definition isValidTime :: "RegExpValidator \<Rightarrow> clock \<Rightarrow> jsstring \<Rightarrow> ValidatorMode \<Rightarrow> result" where
  "isValidTime self clk time mode = validate self clk time (get_property patterns (js ''time'')) mode"

definition isPositiveInteger :: "RegExpValidator \<Rightarrow> clock \<Rightarrow> jsstring \<Rightarrow> ValidatorMode \<Rightarrow> result" where
  "isPositiveInteger self clk value mode = validate self clk value (get_property patterns (js ''positiveInteger'')) mode"

definition isNegativeInteger :: "RegExpValidator \<Rightarrow> clock \<Rightarrow> jsstring \<Rightarrow> ValidatorMode \<Rightarrow> result" where
  "isNegativeInteger self clk value mode = validate self clk value (get_property patterns (js ''negativeInteger'')) mode"

definition isNonZeroInteger :: "RegExpValidator \<Rightarrow> clock \<Rightarrow> jsstring \<Rightarrow> ValidatorMode \<Rightarrow> result" where
  "isNonZeroInteger self clk value mode = validate self clk value (get_property patterns (js ''nonZeroInteger'')) mode"

definition isFloat :: "RegExpValidator \<Rightarrow> clock \<Rightarrow> jsstring \<Rightarrow> ValidatorMode \<Rightarrow> result" where
  "isFloat self clk value mode = validate self clk value (get_property patterns (js ''float'')) mode"

definition isPositiveFloat :: "RegExpValidator \<Rightarrow> clock \<Rightarrow> jsstring \<Rightarrow> ValidatorMode \<Rightarrow> result" where
  "isPositiveFloat self clk value mode = validate self clk value (get_property patterns (js ''positiveFloat'')) mode"

definition isNegativeFloat :: "RegExpValidator \<Rightarrow> clock \<Rightarrow> jsstring \<Rightarrow> ValidatorMode \<Rightarrow> result" where
  "isNegativeFloat self clk value mode = validate self clk value (get_property patterns (js ''negativeFloat'')) mode"

definition isAlphanumeric :: "RegExpValidator \<Rightarrow> clock \<Rightarrow> jsstring \<Rightarrow> ValidatorMode \<Rightarrow> result" where
  "isAlphanumeric self clk value mode = validate self clk value (get_property patterns (js ''alphanumeric'')) mode"

definition isHexadecimal :: "RegExpValidator \<Rightarrow> clock \<Rightarrow> jsstring \<Rightarrow> ValidatorMode \<Rightarrow> result" where
  "isHexadecimal self clk value mode = validate self clk value (get_property patterns (js ''hexadecimal'')) mode"

definition isBinary :: "RegExpValidator \<Rightarrow> clock \<Rightarrow> jsstring \<Rightarrow> ValidatorMode \<Rightarrow> result" where
  "isBinary self clk value mode = validate self clk value (get_property patterns (js ''binary'')) mode"

definition isValidMD5 :: "RegExpValidator \<Rightarrow> clock \<Rightarrow> jsstring \<Rightarrow> ValidatorMode \<Rightarrow> result" where
  "isValidMD5 self clk value mode = validate self clk value (get_property patterns (js ''md5'')) mode"

definition isValidSHA1 :: "RegExpValidator \<Rightarrow> clock \<Rightarrow> jsstring \<Rightarrow> ValidatorMode \<Rightarrow> result" where
  "isValidSHA1 self clk value mode = validate self clk value (get_property patterns (js ''sha1'')) mode"

definition isValidSHA256 :: "RegExpValidator \<Rightarrow> clock \<Rightarrow> jsstring \<Rightarrow> ValidatorMode \<Rightarrow> result" where
  "isValidSHA256 self clk value mode = validate self clk value (get_property patterns (js ''sha256'')) mode"

definition containsHtmlTag :: "RegExpValidator \<Rightarrow> clock \<Rightarrow> jsstring \<Rightarrow> ValidatorMode \<Rightarrow> result" where
  "containsHtmlTag self clk value mode = validate self clk value (get_property patterns (js ''htmlTag'')) mode"

definition isValidFilePath :: "RegExpValidator \<Rightarrow> clock \<Rightarrow> jsstring \<Rightarrow> ValidatorMode \<Rightarrow> result" where
  "isValidFilePath self clk value mode = validate self clk value (get_property patterns (js ''filePath'')) mode"

definition isValidFileName :: "RegExpValidator \<Rightarrow> clock \<Rightarrow> jsstring \<Rightarrow> ValidatorMode \<Rightarrow> result" where
  "isValidFileName self clk value mode = validate self clk value (get_property patterns (js ''fileName'')) mode"

definition isKebabCase :: "RegExpValidator \<Rightarrow> clock \<Rightarrow> jsstring \<Rightarrow> ValidatorMode \<Rightarrow> result" where
  "isKebabCase self clk value mode = validate self clk value (get_property patterns (js ''kebabCase'')) mode"

definition isCamelCase :: "RegExpValidator \<Rightarrow> clock \<Rightarrow> jsstring \<Rightarrow> ValidatorMode \<Rightarrow> result" where
  "isCamelCase self clk value mode = validate self clk value (get_property patterns (js ''camelCase'')) mode"

definition isSnakeCase :: "RegExpValidator \<Rightarrow> clock \<Rightarrow> jsstring \<Rightarrow> ValidatorMode \<Rightarrow> result" where
  "isSnakeCase self clk value mode = validate self clk value (get_property patterns (js ''snakeCase'')) mode"

definition isPascalCase :: "RegExpValidator \<Rightarrow> clock \<Rightarrow> jsstring \<Rightarrow> ValidatorMode \<Rightarrow> result" where
  "isPascalCase self clk value mode = validate self clk value (get_property patterns (js ''pascalCase'')) mode"

text \<open>The operations with a discriminator.  A parameter with a default is an option.\<close>

definition isValidPassword :: "RegExpValidator \<Rightarrow> clock \<Rightarrow> jsstring \<Rightarrow> jsstring option \<Rightarrow> ValidatorMode \<Rightarrow> result" where
  "isValidPassword self clk pw level mode =
     validate self clk pw
       (get_property complexPatterns_password (case level of None \<Rightarrow> js ''medium'' | Some l \<Rightarrow> l))
       mode"

definition isValidPostalCode :: "RegExpValidator \<Rightarrow> clock \<Rightarrow> jsstring \<Rightarrow> jsstring \<Rightarrow> ValidatorMode \<Rightarrow> result" where
  "isValidPostalCode self clk code country mode =
     validate self clk code (get_property complexPatterns_postalCode country) mode"

definition isValidCryptoAddress :: "RegExpValidator \<Rightarrow> clock \<Rightarrow> jsstring \<Rightarrow> jsstring \<Rightarrow> ValidatorMode \<Rightarrow> result" where
  "isValidCryptoAddress self clk address type mode =
     validate self clk address (get_property complexPatterns_crypto type) mode"

text \<open>
  \<^verbatim>\<open>isValidCoordinates\<close> calls \<^verbatim>\<open>validate\<close> twice with the caller's mode and then asks
  of each result whether it is a boolean.
\<close>

fun typeof_boolean :: "result \<Rightarrow> bool" where
  "typeof_boolean (Plain b) = True"
| "typeof_boolean (Detailed r) = False"

fun truthy :: "result \<Rightarrow> bool" where
  "truthy (Plain b) = b"
| "truthy (Detailed r) = True"

definition both_valid :: "result \<Rightarrow> result \<Rightarrow> bool" where
  "both_valid latValid lngValid =
     (if typeof_boolean latValid
      then (if truthy latValid \<and> typeof_boolean lngValid then truthy lngValid else False)
      else False)"

definition isValidCoordinates :: "RegExpValidator \<Rightarrow> clock \<Rightarrow> jsstring \<Rightarrow> jsstring \<Rightarrow> ValidatorMode \<Rightarrow> result" where
  "isValidCoordinates self clk lat lng mode =
     (let latValid = validate self clk lat (get_property complexPatterns_coordinates (js ''latitude'')) mode;
          lngValid = validate self (later 2 clk) lng
                       (get_property complexPatterns_coordinates (js ''longitude'')) mode
      in if mode = Verbose
         then Detailed \<lparr>isValid = both_valid latValid lngValid,
                         message = Some ''Both latitude and longitude must be valid'',
                         matches = None\<rparr>
         else Plain (both_valid latValid lngValid))"

definition isValidDate :: "RegExpValidator \<Rightarrow> clock \<Rightarrow> jsstring \<Rightarrow> jsstring option \<Rightarrow> ValidatorMode \<Rightarrow> result" where
  "isValidDate self clk date format mode =
     (let fmt = (case format of None \<Rightarrow> js ''DD/MM/YYYY'' | Some f \<Rightarrow> f)
      in validate self clk date
           (js_or (get_property isValidDate_patterns fmt)
                  (get_property isValidDate_patterns (js ''DD/MM/YYYY'')))
           mode)"

definition isValidUUID :: "RegExpValidator \<Rightarrow> clock \<Rightarrow> jsstring \<Rightarrow> ValidatorMode \<Rightarrow> result" where
  "isValidUUID self clk uuid mode = validate self clk uuid uuidPattern mode"

definition isValidSlug :: "RegExpValidator \<Rightarrow> clock \<Rightarrow> jsstring \<Rightarrow> ValidatorMode \<Rightarrow> result" where
  "isValidSlug self clk slug mode = validate self clk slug slugPattern mode"

definition isBase64 :: "RegExpValidator \<Rightarrow> clock \<Rightarrow> jsstring \<Rightarrow> ValidatorMode \<Rightarrow> result" where
  "isBase64 self clk base64 mode = validate self clk base64 base64Pattern mode"

text \<open>
  \<^verbatim>\<open>isStrongPassword\<close>.  The policy is the defaults with the caller's options spread
  over them.  \<^verbatim>\<open>minLength\<close> is taken to be an integral number.  \<open>number_to_string\<close>
  prints an integer in decimal notation, with a minus sign when negative: what the template
  literal prints for an integral number below \<open>2\<^sup>5\<^sup>3\<close> in absolute value.  Beyond
  that the language prints the shortest digits that read back as the same double, and
  exponent notation from \<open>10\<^sup>2\<^sup>1\<close> on; \<open>number_to_string\<close> does not follow it there,
  so what is said below of the digits printed holds of the code for numbers below
  \<open>2\<^sup>5\<^sup>3\<close> in absolute value only.  (From \<open>2\<^sup>5\<^sup>3\<close> up to \<open>10\<^sup>2\<^sup>1\<close> either text
  is a quantifier with a bound of at least \<open>2\<^sup>5\<^sup>3\<close>, more than the length of any string
  of the language.)  The pattern is compiled outside the
  \<^verbatim>\<open>try\<close> of \<^verbatim>\<open>validate\<close>, so a \<^verbatim>\<open>SyntaxError\<close> would reach the caller: the
  operation returns a fault or a result.
\<close>

record StrongPasswordOptions =
  minLength :: "int option"
  requireUppercase :: "bool option"
  requireNumbers :: "bool option"
  requireSpecialChars :: "bool option"

definition default_policy :: StrongPasswordOptions where
  "default_policy =
     \<lparr>minLength = None, requireUppercase = None, requireNumbers = None,
      requireSpecialChars = None\<rparr>"

definition digit_char :: "nat \<Rightarrow> char" where
  "digit_char d = char_of (48 + d)"

fun nat_to_string :: "nat \<Rightarrow> string" where
  "nat_to_string n =
     (if n < 10 then [digit_char n] else nat_to_string (n div 10) @ [digit_char (n mod 10)])"

declare nat_to_string.simps [simp del]

definition number_to_string :: "int \<Rightarrow> string" where
  "number_to_string n =
     (if n < 0 then CHR ''-'' # nat_to_string (nat (- n)) else nat_to_string (nat n))"

definition strong_pattern :: "StrongPasswordOptions \<Rightarrow> string" where
  "strong_pattern overrides =
     (let opts_minLength = (case minLength overrides of None \<Rightarrow> 8 | Some n \<Rightarrow> n);
          opts_requireUppercase = (case requireUppercase overrides of None \<Rightarrow> True | Some b \<Rightarrow> b);
          opts_requireNumbers = (case requireNumbers overrides of None \<Rightarrow> True | Some b \<Rightarrow> b);
          opts_requireSpecialChars =
            (case requireSpecialChars overrides of None \<Rightarrow> True | Some b \<Rightarrow> b);
          pattern = ''^'';
          pattern = (if opts_requireUppercase then pattern @ ''(?=.*[A-Z])'' else pattern);
          pattern = (if opts_requireNumbers then pattern @ ''(?=.*'' @ bs @ ''d)'' else pattern);
          pattern = (if opts_requireSpecialChars then pattern @ ''(?=.*[!@#$%^&*])'' else pattern);
          pattern = pattern @ ''.{'' @ number_to_string opts_minLength @ '',}$''
      in pattern)"

definition isStrongPassword :: "RegExpValidator \<Rightarrow> clock \<Rightarrow> jsstring \<Rightarrow> StrongPasswordOptions option \<Rightarrow> ValidatorMode \<Rightarrow> fault + result" where
  "isStrongPassword self clk pw opts mode =
     (case RegExp_new (strong_pattern (case opts of None \<Rightarrow> default_policy | Some p \<Rightarrow> p)) no_flags of
        None \<Rightarrow> Inl (SyntaxError ''Invalid regular expression'')
      | Some r \<Rightarrow> Inr (validate self clk pw (RegExpObject r) mode))"

section \<open>The public surface\<close>

text \<open>
  The operations that only pick a rule of \<^verbatim>\<open>patterns\<close> and hand it to
  \<^verbatim>\<open>validate\<close>, collected so that a statement about every one of them can be written
  once.  The public operations of the class are these, \<^verbatim>\<open>isValid\<close> and the operations
  with a discriminator above.
\<close>

definition pass_through_operations ::
  "(RegExpValidator \<Rightarrow> clock \<Rightarrow> jsstring \<Rightarrow> ValidatorMode \<Rightarrow> result) list" where
  "pass_through_operations =
     [isValidEmail, isValidIPv4, isValidIPv6, isValidMacAddress,
      isValidUrl, isValidUsername, isValidHexColor, isInteger,
      isAlpha, isEmoji, isAnsiArt, isValidJwt,
      isValidDomain, isValidSemver, isValidPhoneNumber, isValidCreditCard,
      isValidSSN, isValidISBN, isValidTime, isPositiveInteger,
      isNegativeInteger, isNonZeroInteger, isFloat, isPositiveFloat,
      isNegativeFloat, isAlphanumeric, isHexadecimal, isBinary,
      isValidMD5, isValidSHA1, isValidSHA256, containsHtmlTag,
      isValidFilePath, isValidFileName, isKebabCase, isCamelCase,
      isSnakeCase, isPascalCase]"

section \<open>Notions used to state the claims\<close>

text \<open>
  What a result says about validity, and the message it carries.
\<close>

fun verdict :: "result \<Rightarrow> bool" where
  "verdict (Plain b) = b"
| "verdict (Detailed r) = isValid r"

fun message_of :: "result \<Rightarrow> string option" where
  "message_of (Plain b) = None"
| "message_of (Detailed r) = message r"

text \<open>
  The three records the validator builds outside the normal path.
\<close>

definition timeout_record :: result where
  "timeout_record =
     Detailed \<lparr>isValid = False, message = Some ''Validation timeout exceeded'', matches = None\<rparr>"

definition error_record :: "fault \<Rightarrow> result" where
  "error_record e =
     Detailed \<lparr>isValid = False, message = Some (''Validation error: '' @ fault_text e),
               matches = None\<rparr>"

definition coordinates_record :: "bool \<Rightarrow> result" where
  "coordinates_record b =
     Detailed \<lparr>isValid = b, message = Some ''Both latitude and longitude must be valid'',
               matches = None\<rparr>"

text \<open>
  The elapsed-time guard of \<^verbatim>\<open>validate\<close> trips when the second reading of the clock is
  more than the effective timeout after the first.  \<open>configured_timeout\<close> is the timeout
  the constructor stores.
\<close>

definition timed_out :: "RegExpValidator \<Rightarrow> clock \<Rightarrow> bool" where
  "timed_out self clk \<longleftrightarrow> clk 1 - clk 0 > timeout_or_5000 self"

definition configured_timeout :: "ValidatorOptions \<Rightarrow> int" where
  "configured_timeout opts = (case timeout opts of None \<Rightarrow> 5000 | Some t \<Rightarrow> t)"

text \<open>
  For a call with its course written down: the clock whose first two readings are those
  of the call, the elapsed-time check tripping (the overhead before the check exceeds the
  effective timeout), and the events that are readings of the clock.
\<close>

definition readings :: "int \<Rightarrow> timing \<Rightarrow> clock" where
  "readings t0 tm = (\<lambda>n. if n = 0 then t0 else t0 + overhead tm)"

definition guard_trips :: "RegExpValidator \<Rightarrow> timing \<Rightarrow> bool" where
  "guard_trips self tm \<longleftrightarrow> overhead tm > timeout_or_5000 self"

fun is_clock_read :: "event \<Rightarrow> bool" where
  "is_clock_read (ClockRead t) = True"
| "is_clock_read e = False"

text \<open>
  A validator built without options, a clock that stands still, and a clock that jumps
  six seconds between the first two readings: the inputs of the examples.
\<close>

definition default_validator :: RegExpValidator where
  "default_validator = RegExpValidator_new no_options"

definition still_clock :: clock where
  "still_clock = (\<lambda>n. 0)"

definition late_clock :: clock where
  "late_clock = (\<lambda>n. if n = 0 then 0 else 6000)"

text \<open>
  The password policy in force: the caller's options over the defaults.
\<close>

definition policy_of :: "StrongPasswordOptions option \<Rightarrow> StrongPasswordOptions" where
  "policy_of opts = (case opts of None \<Rightarrow> default_policy | Some p \<Rightarrow> p)"

definition wants :: "bool option \<Rightarrow> bool" where
  "wants x \<longleftrightarrow> x \<noteq> Some False"

definition policy_minLength :: "StrongPasswordOptions \<Rightarrow> int" where
  "policy_minLength p = (case minLength p of None \<Rightarrow> 8 | Some n \<Rightarrow> n)"

text \<open>
  The sub-conditions of the password policy as properties of the password, and their
  conjunction.
\<close>

definition has_upper :: "jsstring \<Rightarrow> bool" where
  "has_upper s = list_ex (\<lambda>c. 65 \<le> c \<and> c \<le> 90) s"

definition has_digit :: "jsstring \<Rightarrow> bool" where
  "has_digit s = list_ex (\<lambda>c. 48 \<le> c \<and> c \<le> 57) s"

definition has_special :: "jsstring \<Rightarrow> bool" where
  "has_special s = list_ex (\<lambda>c. c \<in> set (js ''!@#$%^&*'')) s"

definition no_line_terminator :: "jsstring \<Rightarrow> bool" where
  "no_line_terminator s = list_all (\<lambda>c. \<not> is_line_terminator c) s"

definition requirements_met :: "StrongPasswordOptions \<Rightarrow> jsstring \<Rightarrow> bool" where
  "requirements_met p s \<longleftrightarrow>
     (wants (requireUppercase p) \<longrightarrow> has_upper s)
     \<and> (wants (requireNumbers p) \<longrightarrow> has_digit s)
     \<and> (wants (requireSpecialChars p) \<longrightarrow> has_special s)"

definition policy_conjunction :: "StrongPasswordOptions \<Rightarrow> jsstring \<Rightarrow> bool" where
  "policy_conjunction p s \<longleftrightarrow> policy_minLength p \<le> int (length s) \<and> requirements_met p s"

text \<open>
  The text \<^verbatim>\<open>{n,}\<close> with the number in decimal notation.
\<close>

definition literal_length_text :: "int \<Rightarrow> jsstring" where
  "literal_length_text n = js (''{'' @ number_to_string n @ '',}'')"

text \<open>
  The layout of a UUID: 36 code units, hyphens at the four separator positions, hexadecimal
  digits of either case elsewhere.  The version nibble is the code unit at index 14, the
  variant nibble the one at index 19.
\<close>

definition is_hex_cu :: "jschar \<Rightarrow> bool" where
  "is_hex_cu c \<longleftrightarrow> (48 \<le> c \<and> c \<le> 57) \<or> (97 \<le> c \<and> c \<le> 102) \<or> (65 \<le> c \<and> c \<le> 70)"

definition dash_positions :: "nat list" where
  "dash_positions = [8, 13, 18, 23]"

definition uuid_layout :: "jsstring \<Rightarrow> bool" where
  "uuid_layout s \<longleftrightarrow>
     length s = 36
     \<and> list_all (\<lambda>i. if i \<in> set dash_positions then s ! i = 45 else is_hex_cu (s ! i)) [0..<36]"

definition version_nibble_ok :: "jschar \<Rightarrow> bool" where
  "version_nibble_ok c \<longleftrightarrow> 49 \<le> c \<and> c \<le> 53"

definition variant_nibble_ok :: "jschar \<Rightarrow> bool" where
  "variant_nibble_ok c \<longleftrightarrow> c \<in> set (js ''89abAB'')"

text \<open>
  A value of a rule table that is a compiled pattern.
\<close>

definition is_pattern :: "jsvalue \<Rightarrow> bool" where
  "is_pattern v = (case v of RegExpObject r \<Rightarrow> True | _ \<Rightarrow> False)"

section \<open>The patterns of the claims, as read\<close>

text \<open>
  The pattern \<^verbatim>\<open>isStrongPassword\<close> assembles, as the reader returns it (lemma
  \<open>RegExp_new_strong_pattern\<close>): the anchor, one look-ahead for each requirement in force,
  the length part, the end anchor.  With a negative \<^verbatim>\<open>minLength\<close> the length part is a dot
  followed by the characters of \<^verbatim>\<open>{n,}\<close> as literals.
\<close>

definition upper_items :: "citem list" where
  "upper_items = [CRange 65 90]"

definition digit_items :: "citem list" where
  "digit_items = [CDigit]"

definition special_items :: "citem list" where
  "special_items = [CChar 33, CChar 64, CChar 35, CChar 36, CChar 37, CChar 94, CChar 38, CChar 42]"

definition policy_looks :: "StrongPasswordOptions \<Rightarrow> citem list list" where
  "policy_looks p =
     (if wants (requireUppercase p) then [upper_items] else [])
     @ (if wants (requireNumbers p) then [digit_items] else [])
     @ (if wants (requireSpecialChars p) then [special_items] else [])"

definition look_for :: "citem list \<Rightarrow> regex" where
  "look_for items = Look True (Seq (Rep 0 None True (Atom ADot)) (Atom (AClass False items)))"

definition look_tokens :: "citem list \<Rightarrow> token list" where
  "look_tokens items =
     [TOpen LookPos, TAtom ADot, TQuant 0 None True, TAtom (AClass False items), TClose]"

definition length_part :: "int \<Rightarrow> regex list" where
  "length_part n =
     (if 0 \<le> n then [Rep (nat n) None True (Atom ADot)]
      else Atom ADot # map (\<lambda>c. Atom (AChar c)) (js (''{'' @ number_to_string n @ '',}'')))"

definition length_tokens :: "int \<Rightarrow> token list" where
  "length_tokens n =
     (if 0 \<le> n then [TAtom ADot, TQuant (nat n) None True]
      else TAtom ADot # map (\<lambda>c. TAtom (AChar c)) (js (''{'' @ number_to_string n @ '',}'')))"

definition strong_ast :: "StrongPasswordOptions \<Rightarrow> regex" where
  "strong_ast p = seq_of (BOL # map look_for (policy_looks p) @ length_part (policy_minLength p) @ [EOL])"

text \<open>
  What a look-ahead \<^verbatim>\<open>(?=.*[items])\<close> asks of the input at index 0: a member of the class
  at an index with no line terminator before it.
\<close>

definition not_lt :: "jschar \<Rightarrow> bool" where
  "not_lt c \<longleftrightarrow> \<not> is_line_terminator c"

definition look_sat :: "flags \<Rightarrow> citem list \<Rightarrow> jsstring \<Rightarrow> bool" where
  "look_sat f items s \<longleftrightarrow>
     (\<exists>j < length s. j \<le> length (takeWhile not_lt s) \<and> atom_ok f (AClass False items) (s ! j))"

text \<open>
  The pattern of \<^verbatim>\<open>isValidUUID\<close> as the reader returns it (lemma \<open>uuidPattern_ast\<close>),
  and the atom it expects at each of the 36 indices.  \<open>flat_atoms\<close> turns a sequence of
  atoms and exact repetitions of atoms into the list of atoms it stands for.
\<close>

definition uuid_items :: "regex list" where
  "uuid_items =
     (let hex = Atom (AClass False [CRange 48 57, CRange 97 102]); dash = Atom (AChar 45) in
      [Rep 8 (Some 8) True hex, dash, Rep 4 (Some 4) True hex, dash,
       Atom (AClass False [CRange 49 53]), Rep 3 (Some 3) True hex, dash,
       Atom (AClass False [CChar 56, CChar 57, CChar 97, CChar 98]), Rep 3 (Some 3) True hex, dash,
       Rep 12 (Some 12) True hex])"

fun flat_atoms :: "regex list \<Rightarrow> atom list option" where
  "flat_atoms [] = Some []"
| "flat_atoms (Atom a # rs) = map_option ((#) a) (flat_atoms rs)"
| "flat_atoms (Rep lo (Some hi) g (Atom a) # rs) =
     (if lo = hi then map_option ((@) (replicate lo a)) (flat_atoms rs) else None)"
| "flat_atoms (r # rs) = None"

definition uuid_atoms :: "atom list" where
  "uuid_atoms =
     (let hex = AClass False [CRange 48 57, CRange 97 102]; dash = AChar 45 in
      replicate 8 hex @ [dash] @ replicate 4 hex @ [dash]
      @ [AClass False [CRange 49 53]] @ replicate 3 hex @ [dash]
      @ [AClass False [CChar 56, CChar 57, CChar 97, CChar 98]] @ replicate 3 hex @ [dash]
      @ replicate 12 hex)"

definition expected_atom :: "nat \<Rightarrow> atom" where
  "expected_atom i =
     (if i \<in> set dash_positions then AChar 45
      else if i = 14 then AClass False [CRange 49 53]
      else if i = 19 then AClass False [CChar 56, CChar 57, CChar 97, CChar 98]
      else AClass False [CRange 48 57, CRange 97 102])"

section \<open>Lemmas about the pattern reader and the matcher\<close>

subsection \<open>Unfolding the reader\<close>

text \<open>
  The defining equations of the two recursive passes, in the form that applies to a text
  whose first character is known.
\<close>

lemma lex_Nil: "lex u [] = Some []"
  by (simp add: lex.simps)

lemma lex_Cons:
  "lex u (c # cs) =
         (if c = CHR ''^'' then tok TBOL (lex u cs)
          else if c = CHR ''$'' then tok TEOL (lex u cs)
          else if c = CHR ''.'' then tok (TAtom ADot) (lex u cs)
          else if c = CHR ''|'' then tok TBar (lex u cs)
          else if c = CHR '')'' then tok TClose (lex u cs)
          else if c = CHR ''('' then
            (case lex_group cs of
               None \<Rightarrow> None
             | Some (k, r) \<Rightarrow> tok (TOpen k) (lex u r))
          else if c = CHR ''*'' then
            (case lex_lazy cs of (g, r) \<Rightarrow> tok (TQuant 0 None g) (lex u r))
          else if c = CHR ''+'' then
            (case lex_lazy cs of (g, r) \<Rightarrow> tok (TQuant 1 None g) (lex u r))
          else if c = CHR ''?'' then
            (case lex_lazy cs of (g, r) \<Rightarrow> tok (TQuant 0 (Some 1) g) (lex u r))
          else if c = CHR ''{'' then
            (case lex_brace cs of
               Some (lo, hi, r) \<Rightarrow>
                 (case lex_lazy r of (g, r1) \<Rightarrow> tok (TQuant lo hi g) (lex u r1))
             | None \<Rightarrow> if u then None else tok (TAtom (AChar (of_char c))) (lex u cs))
          else if c = CHR ''['' then
            (case lex_class u cs of
               None \<Rightarrow> None
             | Some (a, r) \<Rightarrow> tok (TAtom a) (lex u r))
          else if c = CHR 0x5C then
            (case lex_escape u cs of
               None \<Rightarrow> None
             | Some (a, r) \<Rightarrow> tok (TAtom a) (lex u r))
          else if u \<and> (c = CHR '']'' \<or> c = CHR ''}'') then None
          else tok (TAtom (AChar (of_char c))) (lex u cs))"
  by (subst lex.simps) simp

lemma lex_class_items_Nil: "lex_class_items u [] = None"
  by (simp add: lex_class_items.simps)

lemma lex_class_items_Cons:
  "lex_class_items u (c # cs) =
         (if c = CHR '']'' then Some ([], cs)
          else
            (case class_atom u (c # cs) of
               None \<Rightarrow> None
             | Some (a, r) \<Rightarrow>
                 if r \<noteq> [] \<and> hd r = CHR ''-'' \<and> tl r \<noteq> [] \<and> hd (tl r) \<noteq> CHR '']''
                 then
                   (case class_atom u (tl r) of
                      None \<Rightarrow> None
                    | Some (b, r2) \<Rightarrow>
                        (case class_range u a b of
                           None \<Rightarrow> None
                         | Some its \<Rightarrow>
                             map_option (\<lambda>(more, r3). (its @ more, r3)) (lex_class_items u r2)))
                 else map_option (\<lambda>(more, r3). (a # more, r3)) (lex_class_items u r)))"
  by (subst lex_class_items.simps) simp

lemmas lex_defs = lex_Nil lex_Cons lex_class_items_Nil lex_class_items_Cons tok_def
  lex_group_def lex_lazy_def lex_class_def lex_escape_def class_atom_def class_escape_def
  class_range_def char_escape_def bs_def

text \<open>
  The three look-aheads \<^verbatim>\<open>isStrongPassword\<close> may write, each in front of any rest.
\<close>

lemma lex_look_upper:
  "lex False (''(?=.*[A-Z])'' @ r) =
     map_option ((@) [TOpen LookPos, TAtom ADot, TQuant 0 None True,
                      TAtom (AClass False [CRange 65 90]), TClose]) (lex False r)"
  by (cases "lex False r") (simp_all add: lex_defs)

lemma lex_look_digit:
  "lex False (''(?=.*'' @ bs @ ''d)'' @ r) =
     map_option ((@) [TOpen LookPos, TAtom ADot, TQuant 0 None True,
                      TAtom (AClass False [CDigit]), TClose]) (lex False r)"
  by (cases "lex False r") (simp_all add: lex_defs)

lemma lex_look_special:
  "lex False (''(?=.*[!@#$%^&*])'' @ r) =
     map_option ((@) [TOpen LookPos, TAtom ADot, TQuant 0 None True,
                      TAtom (AClass False [CChar 33, CChar 64, CChar 35, CChar 36, CChar 37,
                                           CChar 94, CChar 38, CChar 42]), TClose]) (lex False r)"
  by (cases "lex False r") (simp_all add: lex_defs)

subsection \<open>Printed numbers and the brace quantifier\<close>

text \<open>
  A number printed in decimal is read back by the brace quantifier as the same number; with
  a minus sign in front, the brace is no quantifier and every character is a literal.
\<close>

lemma of_char_digit_char: "d < 10 \<Longrightarrow> (of_char (digit_char d) :: nat) = 48 + d"
  by (simp add: digit_char_def)

lemma is_dec_digit_char: "d < 10 \<Longrightarrow> is_dec (digit_char d)"
  by (simp add: is_dec_def of_char_digit_char)

lemma nat_to_string_digits: "list_all is_dec (nat_to_string n)"
proof (induction n rule: nat_to_string.induct)
  case (1 n)
  show ?case
  proof (cases "n < 10")
    case True
    then show ?thesis by (subst nat_to_string.simps) (simp add: is_dec_digit_char)
  next
    case False
    with 1 show ?thesis by (subst nat_to_string.simps) (simp add: is_dec_digit_char)
  qed
qed

lemma nat_to_string_nonempty: "nat_to_string n \<noteq> []"
  by (subst nat_to_string.simps) simp

lemma dec_value_snoc: "dec_value (ds @ [c]) = 10 * dec_value ds + (of_char c - 48)"
  by (simp add: dec_value_def)

lemma dec_value_nat_to_string: "dec_value (nat_to_string n) = n"
proof (induction n rule: nat_to_string.induct)
  case (1 n)
  show ?case
  proof (cases "n < 10")
    case True
    then show ?thesis
      by (subst nat_to_string.simps) (simp add: dec_value_def of_char_digit_char)
  next
    case False
    with 1 show ?thesis
      by (subst nat_to_string.simps) (simp add: dec_value_snoc of_char_digit_char)
  qed
qed

lemma takeWhile_digits:
  "list_all is_dec ds \<Longrightarrow> \<not> is_dec c \<Longrightarrow> takeWhile is_dec (ds @ c # r) = ds"
  by (induction ds) simp_all

lemma dropWhile_digits:
  "list_all is_dec ds \<Longrightarrow> \<not> is_dec c \<Longrightarrow> dropWhile is_dec (ds @ c # r) = c # r"
  by (induction ds) simp_all

lemma lex_brace_open_ended:
  "lex_brace (nat_to_string n @ '',}'' @ r) = Some (n, None, r)"
proof -
  have c: "\<not> is_dec CHR '',''" and b: "\<not> is_dec CHR ''}''"
    by (simp_all add: is_dec_def)
  have t: "takeWhile is_dec (nat_to_string n @ CHR '','' # CHR ''}'' # r) = nat_to_string n"
    and d: "dropWhile is_dec (nat_to_string n @ CHR '','' # CHR ''}'' # r) = CHR '','' # CHR ''}'' # r"
    using takeWhile_digits [OF nat_to_string_digits c] dropWhile_digits [OF nat_to_string_digits c]
    by simp_all
  show ?thesis
    by (simp add: lex_brace_def Let_def t d nat_to_string_nonempty dec_value_nat_to_string b)
qed

lemma lex_brace_minus: "lex_brace (CHR ''-'' # r) = None"
  by (simp add: lex_brace_def Let_def is_dec_def)

lemma lex_tail_nonneg:
  "lex False (''.{'' @ nat_to_string n @ '',}$'') = Some [TAtom ADot, TQuant n None True, TEOL]"
  using lex_brace_open_ended [of n "''$''"]
  by (simp add: lex_Cons lex_Nil tok_def lex_lazy_def)

lemma lex_digits:
  "list_all is_dec ds \<Longrightarrow>
   lex False (ds @ r) = map_option ((@) (map (\<lambda>c. TAtom (AChar (of_char c))) ds)) (lex False r)"
proof (induction ds)
  case Nil
  show ?case by (simp add: option.map_ident)
next
  case (Cons d ds)
  then have d: "is_dec d" and ih: "lex False (ds @ r) = map_option ((@) (map (\<lambda>c. TAtom (AChar (of_char c))) ds)) (lex False r)"
    by simp_all
  have ne: "d \<noteq> CHR ''^''" "d \<noteq> CHR ''$''" "d \<noteq> CHR ''.''" "d \<noteq> CHR ''|''" "d \<noteq> CHR '')''"
    "d \<noteq> CHR ''(''" "d \<noteq> CHR ''*''" "d \<noteq> CHR ''+''" "d \<noteq> CHR ''?''" "d \<noteq> CHR ''{''"
    "d \<noteq> CHR ''[''" "d \<noteq> CHR 0x5C"
    using d by (auto simp: is_dec_def)
  show ?case
    by (simp add: lex_Cons ne ih tok_def option.map_comp comp_def)
qed

lemma lex_tail_neg:
  "lex False (''.{-'' @ nat_to_string n @ '',}$'') =
     Some ([TAtom ADot, TAtom (AChar 123), TAtom (AChar 45)]
           @ map (\<lambda>c. TAtom (AChar (of_char c))) (nat_to_string n)
           @ [TAtom (AChar 44), TAtom (AChar 125), TEOL])"
proof -
  have "lex False ('',}$'') = Some [TAtom (AChar 44), TAtom (AChar 125), TEOL]"
    by (simp add: lex_Cons lex_Nil tok_def)
  then have "lex False (nat_to_string n @ '',}$'') =
      Some (map (\<lambda>c. TAtom (AChar (of_char c))) (nat_to_string n) @ [TAtom (AChar 44), TAtom (AChar 125), TEOL])"
    using lex_digits [OF nat_to_string_digits, of n "'',}$''"] by simp
  then show ?thesis
    by (simp add: lex_Cons tok_def lex_brace_minus)
qed

subsection \<open>The matcher on atoms, repetitions and sequences\<close>

text \<open>
  Without the \<^verbatim>\<open>u\<close> flag an atom consumes one code unit.  A repetition of an atom with
  no upper bound matches a run of code units the atom accepts: any length from the lower
  bound up to the longest such run.
\<close>

lemma next_char_plain:
  "\<not> unicodeMode f \<Longrightarrow> next_char f (c # s) = Some (c, 1, s)"
  by (cases s) simp_all

lemma step_Nil: "step f a (i, []) = None"
  by (simp add: step_def)

lemma step_Cons:
  "\<not> unicodeMode f \<Longrightarrow> step f a (i, c # s) = (if atom_ok f a c then Some (Suc i, s) else None)"
  by (simp add: step_def next_char_plain)

lemma matcher_star_atom:
  assumes "\<not> unicodeMode f"
  shows "matcher f (Rep 0 None g (Atom a)) (i, s) k
         \<longleftrightarrow> (\<exists>j \<le> length (takeWhile (atom_ok f a) s). k (i + j, drop j s))"
proof (induction s arbitrary: i)
  case Nil
  show ?case by (simp add: step_Nil)
next
  case (Cons c cs)
  show ?case
  proof (cases "atom_ok f a c")
    case False
    then show ?thesis using assms by (simp add: step_Cons)
  next
    case True
    have "matcher f (Rep 0 None g (Atom a)) (i, c # cs) k
          \<longleftrightarrow> matcher f (Rep 0 None g (Atom a)) (Suc i, cs) k \<or> k (i, c # cs)"
      using assms True by (simp add: step_Cons)
    also have "\<dots> \<longleftrightarrow> (\<exists>j \<le> length (takeWhile (atom_ok f a) cs). k (Suc i + j, drop j cs)) \<or> k (i, c # cs)"
      by (simp only: Cons.IH)
    also have "\<dots> \<longleftrightarrow> (\<exists>j \<le> length (takeWhile (atom_ok f a) (c # cs)). k (i + j, drop j (c # cs)))"
      (is "?L \<longleftrightarrow> ?R")
    proof
      assume ?L
      then show ?R
      proof
        assume "\<exists>j \<le> length (takeWhile (atom_ok f a) cs). k (Suc i + j, drop j cs)"
        then obtain j where "j \<le> length (takeWhile (atom_ok f a) cs)" "k (Suc i + j, drop j cs)"
          by blast
        then show ?R using True by (intro exI [of _ "Suc j"]) simp
      next
        assume "k (i, c # cs)"
        then show ?R by (intro exI [of _ 0]) simp
      qed
    next
      assume ?R
      then obtain j where j: "j \<le> length (takeWhile (atom_ok f a) (c # cs))"
        "k (i + j, drop j (c # cs))" by blast
      show ?L
      proof (cases j)
        case 0
        with j show ?thesis by simp
      next
        case (Suc m)
        with j True have "m \<le> length (takeWhile (atom_ok f a) cs)" "k (Suc i + m, drop m cs)"
          by simp_all
        then show ?thesis by blast
      qed
    qed
    finally show ?thesis .
  qed
qed

lemma matcher_min_atom:
  assumes "\<not> unicodeMode f"
  shows "matcher f (Rep n None g (Atom a)) (i, s) k
         \<longleftrightarrow> (\<exists>j. n \<le> j \<and> j \<le> length (takeWhile (atom_ok f a) s) \<and> k (i + j, drop j s))"
proof (induction n arbitrary: i s)
  case 0
  show ?case using matcher_star_atom [OF assms] by simp
next
  case (Suc n)
  show ?case
  proof (cases s)
    case Nil
    then show ?thesis by (simp add: step_Nil)
  next
    case (Cons c cs)
    show ?thesis
    proof (cases "atom_ok f a c")
      case False
      then show ?thesis using assms Cons by (simp add: step_Cons)
    next
      case True
      have "matcher f (Rep (Suc n) None g (Atom a)) (i, s) k
            \<longleftrightarrow> matcher f (Rep n None g (Atom a)) (Suc i, cs) k"
        using assms True Cons by (simp add: step_Cons)
      also have "\<dots> \<longleftrightarrow> (\<exists>j. n \<le> j \<and> j \<le> length (takeWhile (atom_ok f a) cs) \<and> k (Suc i + j, drop j cs))"
        by (simp only: Suc.IH)
      also have "\<dots> \<longleftrightarrow> (\<exists>j. Suc n \<le> j \<and> j \<le> length (takeWhile (atom_ok f a) s) \<and> k (i + j, drop j s))"
        (is "?L \<longleftrightarrow> ?R")
      proof
        assume ?L
        then obtain j where "n \<le> j" "j \<le> length (takeWhile (atom_ok f a) cs)"
          "k (Suc i + j, drop j cs)" by blast
        then show ?R using True Cons by (intro exI [of _ "Suc j"]) simp
      next
        assume ?R
        then obtain j where j: "Suc n \<le> j" "j \<le> length (takeWhile (atom_ok f a) s)"
          "k (i + j, drop j s)" by blast
        then obtain m where m: "j = Suc m" by (cases j) simp_all
        with j True Cons have "n \<le> m" "m \<le> length (takeWhile (atom_ok f a) cs)"
          "k (Suc i + m, drop m cs)" by simp_all
        then show ?L by blast
      qed
      finally show ?thesis .
    qed
  qed
qed

lemma matcher_seq_of_Cons:
  "matcher f (seq_of (r # rs)) x k = matcher f r x (\<lambda>y. matcher f (seq_of rs) y k)"
  by (cases rs) simp_all

lemma search_BOL:
  "search f (seq_of (BOL # rs)) i s \<longleftrightarrow> i = 0 \<and> matcher f (seq_of rs) (0, s) (\<lambda>y. True)"
proof (induction s arbitrary: i)
  case Nil
  show ?case by (auto simp: matcher_seq_of_Cons)
next
  case (Cons c cs)
  have later: "\<not> search f (seq_of (BOL # rs)) (Suc j) t" for j t
  proof (induction t arbitrary: j rule: length_induct)
    case (1 t)
    show ?case
    proof (cases t)
      case Nil
      then show ?thesis by (simp add: matcher_seq_of_Cons)
    next
      case (Cons d ds)
      have a: "\<not> search f (seq_of (BOL # rs)) (Suc (Suc j)) ds"
        using 1 Cons by simp
      have b: "\<not> search f (seq_of (BOL # rs)) (Suc (Suc (Suc j))) (tl ds)"
        using 1 Cons by (cases ds) simp_all
      show ?thesis
        using a b Cons by (cases ds) (simp_all add: matcher_seq_of_Cons)
    qed
  qed
  show ?case
    using later [of i cs] later [of "Suc i" "tl cs"]
    by (cases cs) (auto simp: matcher_seq_of_Cons)
qed

subsection \<open>The pattern of the password policy\<close>

text \<open>
  The text \<^verbatim>\<open>isStrongPassword\<close> assembles always compiles, and to \<open>strong_ast\<close>.
\<close>

lemma strong_pattern_eq:
  "strong_pattern p =
     ''^'' @ (if wants (requireUppercase p) then ''(?=.*[A-Z])'' else [])
     @ (if wants (requireNumbers p) then ''(?=.*'' @ bs @ ''d)'' else [])
     @ (if wants (requireSpecialChars p) then ''(?=.*[!@#$%^&*])'' else [])
     @ ''.{'' @ number_to_string (policy_minLength p) @ '',}$''"
  by (cases "minLength p"; cases "requireUppercase p"; cases "requireNumbers p";
      cases "requireSpecialChars p")
     (simp_all add: strong_pattern_def Let_def wants_def policy_minLength_def)

lemma lex_length_part:
  "lex False (''.{'' @ number_to_string n @ '',}$'') = Some (length_tokens n @ [TEOL])"
proof (cases "0 \<le> n")
  case True
  then show ?thesis
    using lex_tail_nonneg [of "nat n"] by (simp add: number_to_string_def length_tokens_def)
next
  case False
  then show ?thesis
    using lex_tail_neg [of "nat (- n)"]
    by (simp add: number_to_string_def length_tokens_def js_def comp_def)
qed

lemma lex_BOL: "lex False (''^'' @ r) = tok TBOL (lex False r)"
  by (simp add: lex_Cons)

lemma lex_strong_pattern:
  "lex False (strong_pattern p) =
     Some (TBOL # concat (map look_tokens (policy_looks p)) @ length_tokens (policy_minLength p) @ [TEOL])"
  unfolding strong_pattern_eq
  by (simp add: lex_BOL tok_def lex_look_upper lex_look_digit lex_look_special
      lex_length_part policy_looks_def look_tokens_def upper_items_def digit_items_def
      special_items_def del: append_Cons)

lemma parse_looks:
  "parse_tokens False (concat (map look_tokens ls) @ ts) ((k, alts, cur) # st) =
   parse_tokens False ts ((k, alts, rev (map look_for ls) @ cur) # st)"
  by (induction ls arbitrary: cur) (simp_all add: look_tokens_def look_for_def disjunction_def)

lemma parse_atoms:
  "parse_tokens u (map (\<lambda>c. TAtom (AChar c)) cs @ ts) ((k, alts, cur) # st) =
   parse_tokens u ts ((k, alts, rev (map (\<lambda>c. Atom (AChar c)) cs) @ cur) # st)"
  by (induction cs arbitrary: cur) simp_all

lemma parse_length_tokens:
  "parse_tokens False (length_tokens n @ ts) ((k, alts, cur) # st) =
   parse_tokens False ts ((k, alts, rev (length_part n) @ cur) # st)"
  by (simp add: length_tokens_def length_part_def parse_atoms)

lemma RegExp_new_strong_pattern:
  "RegExp_new (strong_pattern p) no_flags = Some \<lparr>rx_flags = no_flags, rx_ast = strong_ast p\<rparr>"
  by (simp add: RegExp_new_def no_flags_def lex_strong_pattern parse_looks parse_length_tokens
      disjunction_def strong_ast_def)

subsection \<open>Look-aheads, literal runs and the length part\<close>

lemma atom_ok_dot: "atom_ok f ADot = not_lt"
  by (rule ext) (simp add: not_lt_def)

lemma step_drop:
  assumes "\<not> unicodeMode f"
  shows "step f a (i, drop j s) =
     (if j < length s \<and> atom_ok f a (s ! j) then Some (Suc i, drop (Suc j) s) else None)"
proof (cases "j < length s")
  case True
  then have "drop j s = s ! j # drop (Suc j) s" by (simp add: Cons_nth_drop_Suc)
  then show ?thesis using assms True by (simp add: step_Cons)
next
  case False
  then show ?thesis by (simp add: step_Nil)
qed

lemma matcher_look_for:
  assumes "\<not> unicodeMode f"
  shows "matcher f (look_for items) (i, s) k \<longleftrightarrow> look_sat f items s \<and> k (i, s)"
proof -
  have "matcher f (Seq (Rep 0 None True (Atom ADot)) (Atom (AClass False items))) (i, s) (\<lambda>y. True)
        \<longleftrightarrow> (\<exists>j \<le> length (takeWhile not_lt s).
               matcher f (Atom (AClass False items)) (i + j, drop j s) (\<lambda>y. True))"
    by (simp add: matcher_star_atom [OF assms] atom_ok_dot del: matcher.simps(2,9))
  also have "\<dots> \<longleftrightarrow> look_sat f items s"
    unfolding look_sat_def
    by (simp add: step_drop [OF assms] del: atom_ok.simps) blast
  finally show ?thesis by (simp add: look_for_def del: matcher.simps(5,9))
qed

lemma matcher_looks:
  assumes "\<not> unicodeMode f"
  shows "matcher f (seq_of (map look_for ls @ rs)) (i, s) k
         \<longleftrightarrow> list_all (\<lambda>items. look_sat f items s) ls \<and> matcher f (seq_of rs) (i, s) k"
proof (induction ls)
  case Nil
  show ?case by simp
next
  case (Cons l ls)
  have "matcher f (seq_of (map look_for (l # ls) @ rs)) (i, s) k
        \<longleftrightarrow> matcher f (look_for l) (i, s) (\<lambda>y. matcher f (seq_of (map look_for ls @ rs)) y k)"
    by (simp add: matcher_seq_of_Cons)
  also have "\<dots> \<longleftrightarrow> look_sat f l s \<and> matcher f (seq_of (map look_for ls @ rs)) (i, s) k"
    by (rule matcher_look_for [OF assms])
  finally show ?case using Cons.IH by simp
qed

lemma takeWhile_length_all: "length (takeWhile P s) = length s \<longleftrightarrow> list_all P s"
proof
  assume len: "length (takeWhile P s) = length s"
  have "takeWhile P s = take (length (takeWhile P s)) s" by (rule takeWhile_eq_take)
  also have "\<dots> = take (length s) s" by (simp only: len)
  also have "\<dots> = s" by simp
  finally have "\<forall>x\<in>set s. P x" by (rule takeWhile_eq_all_conv [THEN iffD1])
  then show "list_all P s" by (simp add: list_all_iff)
next
  assume "list_all P s"
  then have "\<forall>x\<in>set s. P x" by (simp add: list_all_iff)
  then have "takeWhile P s = s" by (rule takeWhile_eq_all_conv [THEN iffD2])
  then show "length (takeWhile P s) = length s" by (rule arg_cong)
qed

lemma matcher_min_dot_end:
  assumes "\<not> unicodeMode f"
  shows "matcher f (seq_of [Rep n None g (Atom ADot), EOL]) (i, s) (\<lambda>y. True)
         \<longleftrightarrow> n \<le> length s \<and> list_all not_lt s"
proof -
  have "matcher f (seq_of [Rep n None g (Atom ADot), EOL]) (i, s) (\<lambda>y. True)
        \<longleftrightarrow> (\<exists>j. n \<le> j \<and> j \<le> length (takeWhile not_lt s) \<and> length s \<le> j)"
    using assms by (simp add: matcher_min_atom atom_ok_dot del: matcher.simps(9))
  also have "\<dots> \<longleftrightarrow> n \<le> length s \<and> length (takeWhile not_lt s) = length s"
    using length_takeWhile_le [of not_lt s] by (auto intro: exI [of _ "length s"])
  finally show ?thesis by (simp add: takeWhile_length_all)
qed

lemma matcher_literal:
  assumes "\<not> unicodeMode f" "\<not> ignoreCase f"
  shows "matcher f (seq_of (map (\<lambda>c. Atom (AChar c)) cs @ rs)) (i, s) k
         \<longleftrightarrow> take (length cs) s = cs \<and> matcher f (seq_of rs) (i + length cs, drop (length cs) s) k"
proof (induction cs arbitrary: i s)
  case Nil
  show ?case by simp
next
  case (Cons c cs)
  show ?case
  proof (cases s)
    case Nil
    then show ?thesis by (simp add: matcher_seq_of_Cons step_Nil)
  next
    case (Cons d ds)
    then show ?thesis
      using assms Cons.IH [of "Suc i" ds]
      by (auto simp: matcher_seq_of_Cons step_Cons)
  qed
qed

lemma matcher_dot_literal_end:
  assumes "\<not> unicodeMode f" "\<not> ignoreCase f"
  shows "matcher f (seq_of (Atom ADot # map (\<lambda>c. Atom (AChar c)) cs @ [EOL])) (i, s) (\<lambda>y. True)
         \<longleftrightarrow> (\<exists>c. not_lt c \<and> s = c # cs)"
proof (cases s)
  case Nil
  then show ?thesis by (simp add: matcher_seq_of_Cons step_Nil)
next
  case (Cons d ds)
  have e: "take (length cs) ds = cs \<and> drop (length cs) ds = [] \<longleftrightarrow> ds = cs"
  proof
    assume a: "take (length cs) ds = cs \<and> drop (length cs) ds = []"
    have "ds = take (length cs) ds @ drop (length cs) ds" by simp
    also have "\<dots> = cs" using a by (simp only: append_Nil2)
    finally show "ds = cs" .
  next
    assume "ds = cs"
    then show "take (length cs) ds = cs \<and> drop (length cs) ds = []" by simp
  qed
  have "matcher f (seq_of (Atom ADot # map (\<lambda>c. Atom (AChar c)) cs @ [EOL])) (i, s) (\<lambda>y. True)
        \<longleftrightarrow> not_lt d \<and> take (length cs) ds = cs \<and> drop (length cs) ds = []"
    using assms Cons
    by (simp add: matcher_seq_of_Cons [of f "Atom ADot"] step_Cons matcher_literal not_lt_def)
  also have "\<dots> \<longleftrightarrow> not_lt d \<and> ds = cs" by (simp only: e)
  finally show ?thesis using Cons by auto
qed

lemma look_sat_no_lt:
  assumes "list_all not_lt s"
  shows "look_sat f items s \<longleftrightarrow> list_ex (atom_ok f (AClass False items)) s"
proof -
  have tw: "length (takeWhile not_lt s) = length s"
    using assms by (simp only: takeWhile_length_all)
  have A: "look_sat f items s \<longleftrightarrow> (\<exists>j < length s. atom_ok f (AClass False items) (s ! j))"
    unfolding look_sat_def tw by auto
  show ?thesis
    unfolding A list_ex_iff by (metis in_set_conv_nth)
qed

subsection \<open>What the password pattern accepts\<close>

lemma not_lt_eq: "not_lt = (\<lambda>c. \<not> is_line_terminator c)"
  by (rule ext) (simp add: not_lt_def)

lemma ok_upper: "atom_ok no_flags (AClass False upper_items) = (\<lambda>c. 65 \<le> c \<and> c \<le> 90)"
  by (rule ext) (simp add: no_flags_def upper_items_def in_range_def)

lemma ok_digit: "atom_ok no_flags (AClass False digit_items) = (\<lambda>c. 48 \<le> c \<and> c \<le> 57)"
  by (rule ext) (simp add: no_flags_def digit_items_def is_digit_cu_def)

lemma ok_special: "atom_ok no_flags (AClass False special_items) = (\<lambda>c. c \<in> set (js ''!@#$%^&*''))"
  by (rule ext) (auto simp: no_flags_def special_items_def js_def)

lemma looks_requirements:
  assumes "list_all not_lt s"
  shows "list_all (\<lambda>items. look_sat no_flags items s) (policy_looks p) \<longleftrightarrow> requirements_met p s"
  by (simp add: policy_looks_def look_sat_no_lt [OF assms] ok_upper ok_digit ok_special
      requirements_met_def has_upper_def has_digit_def has_special_def del: atom_ok.simps)

lemma digits_not_lt: "list_all is_dec ds \<Longrightarrow> list_all not_lt (js ds)"
  by (induction ds) (auto simp: js_def is_dec_def not_lt_def is_line_terminator_def)

lemma literal_length_text_not_lt: "n < 0 \<Longrightarrow> list_all not_lt (literal_length_text n)"
  using digits_not_lt [OF nat_to_string_digits, of "nat (- n)"]
  by (simp add: literal_length_text_def number_to_string_def js_def not_lt_def
      is_line_terminator_def)

lemma strong_ast_test:
  "regexp_test \<lparr>rx_flags = no_flags, rx_ast = strong_ast p\<rparr> s \<longleftrightarrow>
     requirements_met p s
     \<and> (if 0 \<le> policy_minLength p
        then policy_minLength p \<le> int (length s) \<and> no_line_terminator s
        else s \<noteq> [] \<and> \<not> is_line_terminator (hd s) \<and> tl s = literal_length_text (policy_minLength p))"
proof -
  have nu: "\<not> unicodeMode no_flags" and ni: "\<not> ignoreCase no_flags"
    by (simp_all add: no_flags_def)
  let ?n = "policy_minLength p"
  let ?body = "matcher no_flags (seq_of (length_part ?n @ [EOL])) (0, s) (\<lambda>y. True)"
  have split: "regexp_test \<lparr>rx_flags = no_flags, rx_ast = strong_ast p\<rparr> s \<longleftrightarrow>
        list_all (\<lambda>items. look_sat no_flags items s) (policy_looks p) \<and> ?body"
    by (simp add: regexp_test_def strong_ast_def search_BOL matcher_looks [OF nu])
  show ?thesis
  proof (cases "0 \<le> ?n")
    case True
    have body: "?body \<longleftrightarrow> nat ?n \<le> length s \<and> list_all not_lt s"
      using True matcher_min_dot_end [OF nu, of "nat ?n" True 0 s]
      by (simp add: length_part_def)
    show ?thesis
      using True looks_requirements [of s p]
      by (auto simp: split body no_line_terminator_def not_lt_eq)
  next
    case False
    have body: "?body \<longleftrightarrow> (\<exists>c. not_lt c \<and> s = c # literal_length_text ?n)"
      using False matcher_dot_literal_end [OF nu ni, of "literal_length_text ?n" 0 s]
      by (simp add: length_part_def literal_length_text_def)
    have all: "?body \<Longrightarrow> list_all not_lt s"
      using False literal_length_text_not_lt [of ?n] by (auto simp: body)
    have shape: "(\<exists>c. not_lt c \<and> s = c # literal_length_text ?n)
        \<longleftrightarrow> s \<noteq> [] \<and> \<not> is_line_terminator (hd s) \<and> tl s = literal_length_text ?n"
      by (cases s) (auto simp: not_lt_def)
    show ?thesis
      using False looks_requirements [OF all, of p]
      by (auto simp: split body shape)
  qed
qed

subsection \<open>The validator on a compiled pattern\<close>

lemma verdict_validate:
  "\<not> timed_out self clk \<Longrightarrow> verdict (validate self clk v (RegExpObject r) mode) = regexp_test r v"
  by (simp add: validate_def timed_out_def call_test_def Let_def)

lemma isStrongPassword_returns:
  "isStrongPassword self clk pw opts mode =
     Inr (validate self clk pw (RegExpObject \<lparr>rx_flags = no_flags, rx_ast = strong_ast (policy_of opts)\<rparr>) mode)"
  by (simp add: isStrongPassword_def RegExp_new_strong_pattern policy_of_def)

lemma not_timed_out_default: "\<not> timed_out default_validator still_clock"
  by (simp add: timed_out_def default_validator_def still_clock_def timeout_or_5000_def
      RegExpValidator_new_def no_options_def or_default_def)

subsection \<open>The pattern of the UUID operation\<close>

text \<open>
  A sequence of atoms and exact repetitions of atoms between the two anchors accepts
  exactly the inputs that the atoms accept position by position.
\<close>

lemma uuidPattern_ast:
  "uuidPattern = RegExpObject \<lparr>rx_flags = flag_i, rx_ast = seq_of (BOL # uuid_items @ [EOL])\<rparr>"
  by code_simp

lemma matcher_exact_atom:
  assumes "\<not> unicodeMode f"
  shows "matcher f (Rep n (Some n) g (Atom a)) (i, s) k
         \<longleftrightarrow> n \<le> length s \<and> list_all (atom_ok f a) (take n s) \<and> k (i + n, drop n s)"
proof (induction n arbitrary: i s)
  case 0
  show ?case by simp
next
  case (Suc n)
  show ?case
  proof (cases s)
    case Nil
    then show ?thesis by (simp add: step_Nil)
  next
    case (Cons c cs)
    then show ?thesis
      using assms Suc.IH [of "Suc i" cs]
      by (simp add: step_Cons del: atom_ok.simps)
  qed
qed

lemma matcher_flat_atoms:
  assumes "\<not> unicodeMode f"
  shows "flat_atoms rs = Some as \<Longrightarrow>
         matcher f (seq_of (rs @ [EOL])) (i, s) (\<lambda>y. True) \<longleftrightarrow> list_all2 (atom_ok f) as s"
proof (induction rs arbitrary: as i s rule: flat_atoms.induct)
  case 1
  then show ?case by simp
next
  case (2 a rs)
  from "2.prems" obtain as1 where as1: "flat_atoms rs = Some as1" and as: "as = a # as1"
    by (cases "flat_atoms rs") auto
  show ?case
  proof (cases s)
    case Nil
    then show ?thesis by (simp add: as matcher_seq_of_Cons step_Nil)
  next
    case (Cons c cs)
    then show ?thesis
      using assms "2.IH" [OF as1, of "Suc i" cs]
      by (simp add: as matcher_seq_of_Cons step_Cons del: atom_ok.simps)
  qed
next
  case (3 lo hi g a rs)
  from "3.prems" have eq: "lo = hi" by (simp split: if_splits)
  from "3.prems" eq obtain as1 where as1: "flat_atoms rs = Some as1"
    and as: "as = replicate lo a @ as1"
    by (cases "flat_atoms rs") auto
  have ih: "matcher f (seq_of (rs @ [EOL])) (j, t) (\<lambda>y. True) \<longleftrightarrow> list_all2 (atom_ok f) as1 t" for j t
    using "3.IH" [OF eq as1] .
  have rep: "list_all2 (atom_ok f) (replicate lo a) t \<longleftrightarrow> length t = lo \<and> list_all (atom_ok f a) t" for t
    by (auto simp: list_all2_conv_all_nth list_all_length)
  have "matcher f (seq_of ((Rep lo (Some hi) g (Atom a) # rs) @ [EOL])) (i, s) (\<lambda>y. True)
        \<longleftrightarrow> lo \<le> length s \<and> list_all (atom_ok f a) (take lo s)
            \<and> list_all2 (atom_ok f) as1 (drop lo s)"
    using eq by (simp add: matcher_seq_of_Cons matcher_exact_atom [OF assms] ih
        del: matcher.simps(9) atom_ok.simps)
  also have "\<dots> \<longleftrightarrow> list_all2 (atom_ok f) (replicate lo a @ as1) s" (is "?L \<longleftrightarrow> ?R")
  proof
    assume l: ?L
    then have len: "length (replicate lo a) = length (take lo s)" by simp
    have "list_all2 (atom_ok f) (replicate lo a @ as1) (take lo s @ drop lo s)"
      using l by (subst list_all2_append [OF len]) (simp add: rep)
    then show ?R by simp
  next
    assume ?R
    then obtain us vs where s: "s = us @ vs" and u: "length us = lo"
      and a: "list_all2 (atom_ok f) (replicate lo a) us" "list_all2 (atom_ok f) as1 vs"
      by (auto simp: list_all2_append1)
    from a(1) have "list_all (atom_ok f a) us" by (simp add: rep)
    with s u a(2) show ?L by simp
  qed
  finally show ?case by (simp only: as)
qed simp_all

lemma flat_uuid_items: "flat_atoms uuid_items = Some uuid_atoms"
  by (simp add: uuid_items_def uuid_atoms_def Let_def)

lemma ok_hex: "atom_ok flag_i (AClass False [CRange 48 57, CRange 97 102]) c = is_hex_cu c"
  by (auto simp: flag_i_def in_range_def upper_cu_def lower_cu_def is_hex_cu_def)

lemma ok_dash: "atom_ok flag_i (AChar 45) c = (c = 45)"
  by (auto simp: flag_i_def upper_cu_def)

lemma ok_version: "atom_ok flag_i (AClass False [CRange 49 53]) c = version_nibble_ok c"
  by (auto simp: flag_i_def in_range_def upper_cu_def lower_cu_def version_nibble_ok_def)

lemma ok_variant:
  "atom_ok flag_i (AClass False [CChar 56, CChar 57, CChar 97, CChar 98]) c = variant_nibble_ok c"
  by (auto simp: flag_i_def upper_cu_def variant_nibble_ok_def js_def split: if_splits)

lemma nibbles_are_hex: "version_nibble_ok c \<Longrightarrow> is_hex_cu c" "variant_nibble_ok c \<Longrightarrow> is_hex_cu c"
  by (auto simp: version_nibble_ok_def variant_nibble_ok_def is_hex_cu_def js_def)

lemma uuid_atoms_length: "length uuid_atoms = 36"
  by (simp add: uuid_atoms_def Let_def)

lemma all_below_36: "(\<forall>i<36. P i) \<longleftrightarrow> list_all P [0..<36]"
  by (auto simp: list_all_iff)

lemma uuid_atoms_nth: "i < 36 \<Longrightarrow> uuid_atoms ! i = expected_atom i"
proof -
  have "list_all (\<lambda>i. uuid_atoms ! i = expected_atom i) [0..<36]"
    by code_simp
  then show "i < 36 \<Longrightarrow> uuid_atoms ! i = expected_atom i"
    by (simp only: all_below_36 [symmetric])
qed

lemma ok_expected_atom:
  "atom_ok flag_i (expected_atom i) c =
     (if i \<in> set dash_positions then c = 45
      else if i = 14 then version_nibble_ok c
      else if i = 19 then variant_nibble_ok c
      else is_hex_cu c)"
  by (simp add: expected_atom_def ok_hex ok_dash ok_version ok_variant del: atom_ok.simps)

lemma uuid_atoms_match:
  "list_all2 (atom_ok flag_i) uuid_atoms s \<longleftrightarrow>
     uuid_layout s \<and> version_nibble_ok (s ! 14) \<and> variant_nibble_ok (s ! 19)"
proof (cases "length s = 36")
  case False
  then show ?thesis
    by (auto simp: uuid_layout_def list_all2_conv_all_nth uuid_atoms_length)
next
  case True
  have "list_all2 (atom_ok flag_i) uuid_atoms s
        \<longleftrightarrow> (\<forall>i<36. atom_ok flag_i (expected_atom i) (s ! i))"
    using True by (simp add: list_all2_conv_all_nth uuid_atoms_length uuid_atoms_nth del: atom_ok.simps)
  also have "\<dots> \<longleftrightarrow> (\<forall>i<36. if i \<in> set dash_positions then s ! i = 45 else is_hex_cu (s ! i))
        \<and> version_nibble_ok (s ! 14) \<and> variant_nibble_ok (s ! 19)" (is "?L \<longleftrightarrow> ?R")
  proof
    assume l: ?L
    have "version_nibble_ok (s ! 14)" "variant_nibble_ok (s ! 19)"
      using l [rule_format, of 14] l [rule_format, of 19]
      by (simp_all add: ok_expected_atom dash_positions_def)
    moreover have "if i \<in> set dash_positions then s ! i = 45 else is_hex_cu (s ! i)" if "i < 36" for i
      using l [rule_format, OF that] nibbles_are_hex [of "s ! i"]
      by (auto simp: ok_expected_atom split: if_splits)
    ultimately show ?R by blast
  next
    assume r: ?R
    show ?L
    proof (intro allI impI)
      fix i :: nat
      assume "i < 36"
      with r show "atom_ok flag_i (expected_atom i) (s ! i)"
        by (auto simp: ok_expected_atom dash_positions_def)
    qed
  qed
  finally show ?thesis
    using True by (simp add: uuid_layout_def all_below_36 dash_positions_def)
qed

lemma uuid_test:
  "regexp_test \<lparr>rx_flags = flag_i, rx_ast = seq_of (BOL # uuid_items @ [EOL])\<rparr> s \<longleftrightarrow>
     uuid_layout s \<and> version_nibble_ok (s ! 14) \<and> variant_nibble_ok (s ! 19)"
proof -
  have nu: "\<not> unicodeMode flag_i" by (simp add: flag_i_def)
  show ?thesis
    by (simp add: regexp_test_def search_BOL matcher_flat_atoms [OF nu flat_uuid_items]
        uuid_atoms_match)
qed

subsection \<open>The engine and the operations built on it\<close>

lemmas pass_through_defs = isValidEmail_def isValidIPv4_def isValidIPv6_def isValidMacAddress_def isValidUrl_def isValidUsername_def isValidHexColor_def isInteger_def isAlpha_def isEmoji_def isAnsiArt_def isValidJwt_def isValidDomain_def isValidSemver_def isValidPhoneNumber_def isValidCreditCard_def isValidSSN_def isValidISBN_def isValidTime_def isPositiveInteger_def isNegativeInteger_def isNonZeroInteger_def isFloat_def isPositiveFloat_def isNegativeFloat_def isAlphanumeric_def isHexadecimal_def isBinary_def isValidMD5_def isValidSHA1_def isValidSHA256_def containsHtmlTag_def isValidFilePath_def isValidFileName_def isKebabCase_def isCamelCase_def isSnakeCase_def isPascalCase_def

lemma validate_shape: "typeof_boolean (validate self clk v pattern mode) = (mode = NoMode)"
  by (cases mode) (simp_all add: validate_def Let_def split: sum.splits)

lemma pass_through_validate:
  "op \<in> set pass_through_operations \<Longrightarrow> \<exists>pattern. \<forall>self clk v mode. op self clk v mode = validate self clk v pattern mode"
  unfolding pass_through_operations_def pass_through_defs
  by (auto simp del: validate_def)

lemma validate_fault:
  assumes "call_test pattern v = Inl e"
  shows "validate self clk v pattern NoMode = Plain False"
    and "validate self clk v pattern Verbose = (if timed_out self clk then timeout_record else error_record e)"
  using assms
  by (simp_all add: validate_def Let_def timed_out_def timeout_record_def error_record_def)

lemma validate_timed_out:
  "timed_out self clk \<Longrightarrow>
   validate self clk v pattern mode = (if mode = Verbose then timeout_record else Plain False)"
  by (simp add: validate_def timed_out_def timeout_record_def)

lemma validate_run_outcome:
  "outcome (validate_run self t0 tm v pattern mode) = validate self (readings t0 tm) v pattern mode"
  by (simp add: validate_run_def validate_def readings_def Let_def split: sum.splits)

lemma validate_run_tripped:
  "guard_trips self tm \<Longrightarrow>
   validate_run self t0 tm v pattern mode =
     \<lparr>outcome = (if mode = Verbose then timeout_record else Plain False),
      events = [ClockRead t0, ClockRead (t0 + overhead tm)],
      returned_at = t0 + overhead tm\<rparr>"
  by (simp add: validate_run_def guard_trips_def timeout_record_def Let_def)

lemma validate_run_evaluated:
  "\<not> guard_trips self tm \<Longrightarrow>
   TestCalled \<in> set (events (validate_run self t0 tm v pattern mode))
   \<and> message_of (outcome (validate_run self t0 tm v pattern mode)) \<noteq> Some ''Validation timeout exceeded''
   \<and> outcome (validate_run self t0 tm v pattern mode) \<noteq> timeout_record"
  by (simp add: validate_run_def guard_trips_def timeout_record_def Let_def split: sum.splits)

lemma validate_run_durations:
  "outcome (validate_run self t0 (tm\<lparr>test_duration := d, match_duration := e\<rparr>) v pattern mode)
     = outcome (validate_run self t0 tm v pattern mode)
   \<and> events (validate_run self t0 (tm\<lparr>test_duration := d, match_duration := e\<rparr>) v pattern mode)
     = events (validate_run self t0 tm v pattern mode)"
  by (simp add: validate_run_def Let_def split: sum.splits)

lemma validate_run_no_late_reading:
  "take 2 (events (validate_run self t0 tm v pattern mode)) = [ClockRead t0, ClockRead (t0 + overhead tm)]
   \<and> \<not> list_ex is_clock_read (drop 2 (events (validate_run self t0 tm v pattern mode)))"
  by (simp add: validate_run_def Let_def split: sum.splits)

lemma guard_trips_exceeds_configured:
  "0 \<le> configured_timeout opts \<Longrightarrow> guard_trips (RegExpValidator_new opts) tm
   \<Longrightarrow> configured_timeout opts < overhead tm"
  by (auto simp: guard_trips_def configured_timeout_def timeout_or_5000_def
      RegExpValidator_new_def or_default_def split: option.splits if_splits)

lemma absent_key_faults:
  assumes "map_of table key = None"
  shows "\<exists>e. call_test (get_property table key) v = Inl e"
  using assms by (simp add: get_property_def call_test_def)

lemma timeout_zero: "timeout_or_5000 (RegExpValidator_new (opts\<lparr>timeout := Some 0\<rparr>)) = 5000"
  "timeout_or_5000 (RegExpValidator_new (opts\<lparr>timeout := None\<rparr>)) = 5000"
  "timeout_or_5000 (RegExpValidator_new (opts\<lparr>timeout := Some 5000\<rparr>)) = 5000"
  by (simp_all add: timeout_or_5000_def RegExpValidator_new_def or_default_def)

lemma validate_timeout_only:
  "timeout_or_5000 self = timeout_or_5000 self2 \<Longrightarrow> validate self = validate self2"
  by (intro ext) (simp add: validate_def)

subsection \<open>The coordinate pair\<close>

text \<open>
  In verbose mode the \<^verbatim>\<open>isValid\<close> field is \<^verbatim>\<open>false\<close> for every input.  In default
  mode the result is the conjunction of the two matches, unless a guard trips.
\<close>

lemma isValidCoordinates_verbose:
  "isValidCoordinates self clk lat lng Verbose = coordinates_record False"
  by (simp add: isValidCoordinates_def Let_def both_valid_def coordinates_record_def validate_def
      split: sum.splits)

lemma isValidCoordinates_default:
  "isValidCoordinates self clk lat lng NoMode =
     Plain (\<not> timed_out self clk \<and> \<not> timed_out self (later 2 clk)
            \<and> call_test (get_property complexPatterns_coordinates (js ''latitude'')) lat = Inr True
            \<and> call_test (get_property complexPatterns_coordinates (js ''longitude'')) lng = Inr True)"
  by (auto simp: isValidCoordinates_def Let_def both_valid_def validate_def timed_out_def later_def
      split: sum.splits)

lemma latitude_examples:
  "call_test (get_property complexPatterns_coordinates (js ''latitude'')) (js ''37.7749'') = Inr True"
  "call_test (get_property complexPatterns_coordinates (js ''latitude'')) (js ''90.0001'') = Inr False"
  "call_test (get_property complexPatterns_coordinates (js ''latitude'')) (js ''91'') = Inr False"
  by code_simp+

lemma longitude_examples:
  "call_test (get_property complexPatterns_coordinates (js ''longitude'')) (js ''-122.4194'') = Inr True"
  "call_test (get_property complexPatterns_coordinates (js ''longitude'')) (js ''45'') = Inr True"
  "call_test (get_property complexPatterns_coordinates (js ''longitude'')) (js ''200'') = Inr False"
  by code_simp+

lemma not_timed_out_later: "\<not> timed_out default_validator (later n still_clock)"
  by (simp add: timed_out_def default_validator_def still_clock_def timeout_or_5000_def
      RegExpValidator_new_def no_options_def or_default_def later_def)

lemma isValidCoordinates_examples:
  "isValidCoordinates default_validator still_clock (js ''37.7749'') (js ''-122.4194'') NoMode = Plain True"
  "isValidCoordinates default_validator still_clock (js ''90.0001'') (js ''45'') NoMode = Plain False"
  "isValidCoordinates default_validator still_clock (js ''91'') (js ''200'') NoMode = Plain False"
  by (simp_all add: isValidCoordinates_default latitude_examples longitude_examples
      not_timed_out_default not_timed_out_later)

subsection \<open>The date selector\<close>

text \<open>
  A selector that is neither in the table nor a member of \<^verbatim>\<open>Object.prototype\<close> falls
  back to \<^verbatim>\<open>'DD/MM/YYYY'\<close>.
\<close>

lemma date_lookup_examples:
  "get_property isValidDate_patterns (js ''constructor'') = OtherObject"
  "get_property isValidDate_patterns (js ''BAD-FORMAT'') = Undefined"
  by code_simp+

lemma date_examples:
  "call_test (get_property isValidDate_patterns (js ''DD/MM/YYYY'')) (js ''31/12/2023'') = Inr True"
  "call_test (get_property isValidDate_patterns (js ''DD/MM/YYYY'')) (js ''31/13/2023'') = Inr False"
  by code_simp+

lemma date_default_is_pattern:
  "get_property isValidDate_patterns (js ''DD/MM/YYYY'') \<noteq> Undefined"
  using date_examples(1) by (auto simp: call_test_def)

lemma isValidDate_fallback:
  assumes "map_of isValidDate_patterns format = None" and "format \<notin> set object_prototype_keys"
  shows "isValidDate self clk date (Some format) mode
         = isValidDate self clk date (Some (js ''DD/MM/YYYY'')) mode"
  using assms date_default_is_pattern
  by (simp add: isValidDate_def Let_def js_or_def get_property_def)

lemma isValidDate_bad_format_example:
  "isValidDate default_validator still_clock (js ''31/13/2023'') (Some (js ''BAD-FORMAT'')) NoMode = Plain False"
  using not_timed_out_default
  by (simp add: isValidDate_def Let_def js_or_def date_lookup_examples validate_def date_examples
      timed_out_def)

subsection \<open>The pattern literals of the source\<close>

text \<open>
  The reader accepts every pattern literal of the source.
\<close>

lemmas lex_eval = lex_defs lex_brace_def is_dec_def dec_value_def hex_value_def hex_digit_def
  Let_def is_syntax_char_def is_lead_def regex_literal_def RegExp_new_def no_flags_def
  flag_u_def flag_i_def is_pattern_def dq_def sq_def bq_def

lemma catalog_literals_compile:
  "list_all (\<lambda>(k, v). is_pattern v) patterns"
  "list_all (\<lambda>(k, v). is_pattern v) complexPatterns_postalCode"
  "list_all (\<lambda>(k, v). is_pattern v) complexPatterns_crypto"
  "list_all (\<lambda>(k, v). is_pattern v) complexPatterns_password"
  "list_all (\<lambda>(k, v). is_pattern v) complexPatterns_coordinates"
  "list_all (\<lambda>(k, v). is_pattern v) isValidDate_patterns"
  "is_pattern uuidPattern" "is_pattern slugPattern" "is_pattern base64Pattern"
  by (simp_all add: patterns_def complexPatterns_postalCode_def complexPatterns_crypto_def
      complexPatterns_password_def complexPatterns_coordinates_def isValidDate_patterns_def
      uuidPattern_def slugPattern_def base64Pattern_def lex_eval)

section \<open>The claims\<close>

subsection \<open>C1: the coordinate pair\<close>

text \<open>
  Claim C1 says that \<^verbatim>\<open>isValidCoordinates\<close> is valid exactly when both values match
  their rule, and that in verbose mode the \<^verbatim>\<open>isValid\<close> field reflects the same
  conjunction.  In default mode it does (lemmas \<open>isValidCoordinates_default\<close> and
  \<open>isValidCoordinates_examples\<close>).  In verbose mode the two inner calls return records,
  the test \<^verbatim>\<open>typeof latValid === 'boolean'\<close> fails, and \<^verbatim>\<open>isValid\<close> is \<^verbatim>\<open>false\<close>
  whatever the input (lemma \<open>isValidCoordinates_verbose\<close>).  The theorem evaluates the
  operation at San Francisco, \<^verbatim>\<open>('37.7749', '-122.4194')\<close>: valid in default mode,
  reported invalid in verbose mode.
\<close>

theorem isValidCoordinates_verbose_reports_invalid:
  "isValidCoordinates default_validator still_clock (js ''37.7749'') (js ''-122.4194'') NoMode = Plain True
   \<and> isValidCoordinates default_validator still_clock (js ''37.7749'') (js ''-122.4194'') Verbose
       = coordinates_record False"
  by (simp add: isValidCoordinates_examples isValidCoordinates_verbose)

subsection \<open>C2: the shape of the output\<close>

text \<open>
  Claim C2.  For every operation of the validator and every input, the result is a plain
  boolean exactly when the call is made without a mode, and so a record (whose
  \<^verbatim>\<open>isValid\<close> field is a boolean by its type) exactly when the mode is
  \<^verbatim>\<open>'verbose'\<close>; \<^verbatim>\<open>isStrongPassword\<close>, which compiles its pattern outside the guarded
  evaluation, does return.
\<close>

theorem output_shape_follows_mode:
  "(\<forall>op \<in> set pass_through_operations. typeof_boolean (op self clk v mode) = (mode = NoMode))
   \<and> typeof_boolean (isValid_pattern self clk v pattern mode) = (mode = NoMode)
   \<and> typeof_boolean (isValidPassword self clk v level mode) = (mode = NoMode)
   \<and> typeof_boolean (isValidPostalCode self clk v country mode) = (mode = NoMode)
   \<and> typeof_boolean (isValidCryptoAddress self clk v coin mode) = (mode = NoMode)
   \<and> typeof_boolean (isValidCoordinates self clk v lng mode) = (mode = NoMode)
   \<and> typeof_boolean (isValidDate self clk v format mode) = (mode = NoMode)
   \<and> typeof_boolean (isValidUUID self clk v mode) = (mode = NoMode)
   \<and> typeof_boolean (isValidSlug self clk v mode) = (mode = NoMode)
   \<and> typeof_boolean (isBase64 self clk v mode) = (mode = NoMode)
   \<and> (\<exists>r. isStrongPassword self clk v policy mode = Inr r \<and> typeof_boolean r = (mode = NoMode))"
proof -
  have "typeof_boolean (op self clk v mode) = (mode = NoMode)"
    if "op \<in> set pass_through_operations" for op
    using pass_through_validate [OF that] by (auto simp: validate_shape)
  moreover have "typeof_boolean (isValidCoordinates self clk v lng mode) = (mode = NoMode)"
    by (cases mode) (simp_all add: isValidCoordinates_def Let_def)
  ultimately show ?thesis
    by (simp add: isValid_pattern_def isValidPassword_def isValidPostalCode_def
        isValidCryptoAddress_def isValidDate_def isValidUUID_def isValidSlug_def isBase64_def
        isStrongPassword_returns validate_shape Let_def)
qed

text \<open>
  An instance: \<^verbatim>\<open>isValidEmail\<close>, one of the operations the theorem ranges over, in both
  modes.
\<close>

theorem output_shape_follows_mode_witness:
  "typeof_boolean (isValidEmail default_validator still_clock (js ''user@example.com'') NoMode)
   \<and> \<not> typeof_boolean (isValidEmail default_validator still_clock (js ''user@example.com'') Verbose)"
proof -
  have m: "isValidEmail \<in> set pass_through_operations"
    by (simp add: pass_through_operations_def)
  from output_shape_follows_mode [of default_validator still_clock "js ''user@example.com''" NoMode]
    output_shape_follows_mode [of default_validator still_clock "js ''user@example.com''" Verbose] m
  show ?thesis by simp
qed

subsection \<open>C3: the password policy\<close>

text \<open>
  Claim C3, as amended.  For every password and every policy whose effective
  \<^verbatim>\<open>minLength\<close> is an integer from 0 and below \<open>10\<^sup>2\<^sup>1\<close>, in either output mode and
  unless the elapsed-time guard trips, \<^verbatim>\<open>isStrongPassword\<close> returns (it does not throw)
  and reports the password valid exactly when the password holds no line terminator and
  the conjunction holds: at least \<^verbatim>\<open>minLength\<close> code units, an upper-case letter if
  required, a digit if required, one of \<^verbatim>\<open>!@#$%^&*\<close> if required.  The right-hand side
  is a plain conjunction, so the order in which the pattern text is assembled plays no
  role.
\<close>

theorem isStrongPassword_conjunction:
  assumes "0 \<le> policy_minLength (policy_of opts)"
    and "policy_minLength (policy_of opts) < 10 ^ 21"
    and "\<not> timed_out self clk"
  shows "\<exists>r. isStrongPassword self clk pw opts mode = Inr r
             \<and> verdict r = (no_line_terminator pw \<and> policy_conjunction (policy_of opts) pw)"
  using assms
  by (auto simp: isStrongPassword_returns verdict_validate strong_ast_test policy_conjunction_def)

text \<open>
  The two examples of the claim, obtained from the theorem: \<^verbatim>\<open>password123\<close> under the
  relaxed policy passes, \<^verbatim>\<open>short\<close> under the defaults does not.
\<close>

theorem isStrongPassword_conjunction_witness:
  "isStrongPassword default_validator still_clock (js ''password123'')
     (Some \<lparr>minLength = Some 6, requireUppercase = Some False, requireNumbers = None,
            requireSpecialChars = Some False\<rparr>) NoMode = Inr (Plain True)
   \<and> isStrongPassword default_validator still_clock (js ''short'') None NoMode = Inr (Plain False)"
proof -
  let ?p = "\<lparr>minLength = Some 6, requireUppercase = Some False, requireNumbers = None,
            requireSpecialChars = Some False\<rparr>"
  have t: "\<not> timed_out default_validator still_clock"
    by (simp add: timed_out_def default_validator_def still_clock_def timeout_or_5000_def
        RegExpValidator_new_def no_options_def or_default_def)
  have a: "0 \<le> policy_minLength (policy_of (Some ?p))" "policy_minLength (policy_of (Some ?p)) < 10 ^ 21"
    by (simp_all add: policy_of_def policy_minLength_def)
  have b: "0 \<le> policy_minLength (policy_of None)" "policy_minLength (policy_of None) < 10 ^ 21"
    by (simp_all add: policy_of_def policy_minLength_def default_policy_def)
  have c1: "no_line_terminator (js ''password123'') \<and> policy_conjunction (policy_of (Some ?p)) (js ''password123'')"
    by (simp add: no_line_terminator_def policy_conjunction_def requirements_met_def wants_def
        policy_of_def policy_minLength_def has_digit_def js_def is_line_terminator_def)
  have c2: "\<not> (no_line_terminator (js ''short'') \<and> policy_conjunction (policy_of None) (js ''short''))"
    by (simp add: policy_conjunction_def policy_of_def policy_minLength_def default_policy_def js_def)
  from isStrongPassword_conjunction [OF a t, of "js ''password123''" NoMode] c1
  have 1: "isStrongPassword default_validator still_clock (js ''password123'') (Some ?p) NoMode = Inr (Plain True)"
    by (auto simp: isStrongPassword_returns validate_def Let_def split: if_splits sum.splits)
  from isStrongPassword_conjunction [OF b t, of "js ''short''" NoMode] c2
  have 2: "isStrongPassword default_validator still_clock (js ''short'') None NoMode = Inr (Plain False)"
    by (auto simp: isStrongPassword_returns validate_def Let_def split: if_splits sum.splits)
  from 1 2 show ?thesis by simp
qed

text \<open>
  The claim as stated fails: the nine characters \<^verbatim>\<open>Passw0rd!\<close> followed by a line feed
  satisfy the conjunction of the default policy, and the call returns \<^verbatim>\<open>false\<close>, since
  the dot of the pattern refuses a line terminator.
\<close>

theorem isStrongPassword_conjunction_counterexample:
  "policy_conjunction (policy_of None) (js ''Passw0rd!'' @ [10])
   \<and> isStrongPassword default_validator still_clock (js ''Passw0rd!'' @ [10]) None NoMode
       = Inr (Plain False)"
  using not_timed_out_default
  by (simp add: isStrongPassword_returns validate_def Let_def call_test_def timed_out_def
      strong_ast_test policy_conjunction_def requirements_met_def policy_of_def
      default_policy_def policy_minLength_def wants_def has_upper_def has_digit_def
      has_special_def no_line_terminator_def is_line_terminator_def js_def)

subsection \<open>C4: the fallback of the date selector\<close>

text \<open>
  Claim C4 says that every selector other than the four orderings gives the result of
  \<^verbatim>\<open>'DD/MM/YYYY'\<close>.  The source writes the fallback as
  \<^verbatim>\<open>patterns[format] || patterns['DD/MM/YYYY']\<close> on an object literal, and for a selector
  that names a member of \<^verbatim>\<open>Object.prototype\<close> the lookup finds that member, which is
  truthy and has no \<^verbatim>\<open>test\<close> method: the fallback is skipped and the call returns
  \<^verbatim>\<open>false\<close>.  The theorem evaluates the operation on \<^verbatim>\<open>'31/12/2023'\<close>: valid under
  \<^verbatim>\<open>'DD/MM/YYYY'\<close>, invalid under the selector \<^verbatim>\<open>'constructor'\<close>.  For every other
  unknown selector the fallback works (lemma \<open>isValidDate_fallback\<close>), and
  \<^verbatim>\<open>isValidDate('31/13/2023', 'BAD-FORMAT')\<close> is \<^verbatim>\<open>false\<close> (lemma
  \<open>isValidDate_bad_format_example\<close>).
\<close>

theorem isValidDate_inherited_selector:
  "isValidDate default_validator still_clock (js ''31/12/2023'') (Some (js ''DD/MM/YYYY'')) NoMode = Plain True
   \<and> isValidDate default_validator still_clock (js ''31/12/2023'') (Some (js ''constructor'')) NoMode = Plain False"
  using not_timed_out_default
  by (simp add: isValidDate_def Let_def js_or_def date_lookup_examples date_default_is_pattern
      validate_def date_examples timed_out_def validate_fault(1) [of OtherObject]
      call_test_def [of OtherObject])

subsection \<open>C5: faults during evaluation\<close>

text \<open>
  Claim C5.  When evaluating the rule faults (\<^verbatim>\<open>pattern.test\<close> throws), \<^verbatim>\<open>validate\<close>
  returns plain \<^verbatim>\<open>false\<close> in default mode and in verbose mode a record with
  \<^verbatim>\<open>isValid\<close> false and a message (the error message, or the timeout message when the
  elapsed-time guard tripped first).  Every operation with one rule is a call of
  \<^verbatim>\<open>validate\<close> and returns what it returns; \<^verbatim>\<open>isStrongPassword\<close>, the one operation
  that could throw outside \<^verbatim>\<open>validate\<close>, returns as well.
\<close>

theorem evaluation_faults_are_caught:
  "(call_test pattern v = Inl e \<longrightarrow>
      validate self clk v pattern NoMode = Plain False
      \<and> validate self clk v pattern Verbose
          = (if timed_out self clk then timeout_record else error_record e))
   \<and> (\<forall>op \<in> set pass_through_operations. \<exists>p. op self clk v mode = validate self clk v p mode)
   \<and> (\<exists>p. isValid_pattern self clk v pattern mode = validate self clk v p mode)
   \<and> (\<exists>p. isValidPassword self clk v level mode = validate self clk v p mode)
   \<and> (\<exists>p. isValidPostalCode self clk v country mode = validate self clk v p mode)
   \<and> (\<exists>p. isValidCryptoAddress self clk v coin mode = validate self clk v p mode)
   \<and> (\<exists>p. isValidDate self clk v format mode = validate self clk v p mode)
   \<and> (\<exists>p. isValidUUID self clk v mode = validate self clk v p mode)
   \<and> (\<exists>p. isValidSlug self clk v mode = validate self clk v p mode)
   \<and> (\<exists>p. isBase64 self clk v mode = validate self clk v p mode)
   \<and> (\<exists>p. isStrongPassword self clk v policy mode = Inr (validate self clk v p mode))"
proof -
  have "\<exists>p. op self clk v mode = validate self clk v p mode"
    if "op \<in> set pass_through_operations" for op
    using pass_through_validate [OF that] by blast
  moreover have "\<exists>p. validate self clk v q mode = validate self clk v p mode" for q
    by blast
  ultimately show ?thesis
    by (simp add: validate_fault isStrongPassword_returns isValid_pattern_def isValidPassword_def
        isValidPostalCode_def isValidCryptoAddress_def isValidDate_def isValidUUID_def
        isValidSlug_def isBase64_def Let_def)
qed

text \<open>
  An instance: the rule \<^verbatim>\<open>undefined\<close>, on which \<^verbatim>\<open>test\<close> cannot even be read.
\<close>

theorem evaluation_faults_are_caught_witness:
  "validate default_validator still_clock (js ''12345'') Undefined NoMode = Plain False
   \<and> validate default_validator still_clock (js ''12345'') Undefined Verbose
       = error_record (TypeError (''Cannot read properties of undefined (reading '' @ sq @ ''test'' @ sq @ '')''))"
proof -
  have f: "call_test Undefined (js ''12345'')
           = Inl (TypeError (''Cannot read properties of undefined (reading '' @ sq @ ''test'' @ sq @ '')''))"
    by (simp add: call_test_def)
  from evaluation_faults_are_caught [of Undefined "js ''12345''" _ default_validator still_clock] f
    not_timed_out_default
  show ?thesis by simp
qed

subsection \<open>C6: the timeout outcome comes from the check before evaluation only\<close>

text \<open>
  Claim C6.  In the course of a call, written down by \<open>validate_run\<close> (whose outcome is
  that of \<^verbatim>\<open>validate\<close> on the clock of the call): when the elapsed-time check trips, the
  call returns the timeout outcome, \<^verbatim>\<open>false\<close> in default mode and the record with the
  message \<^verbatim>\<open>Validation timeout exceeded\<close> in verbose mode, having read the clock twice
  and evaluated nothing; the pattern is evaluated exactly when the check does not trip, and
  a call that has evaluated the pattern returns neither the timeout record nor the timeout
  message; the message is returned exactly in verbose mode with the check tripping; the
  outcome is the same whatever time the evaluation takes, and the call reads the clock
  nowhere after the check; and with a non-negative configured timeout the check trips only
  if the overhead before it exceeds that timeout.
\<close>

theorem timeout_only_from_the_guard_before_evaluation:
  "outcome (validate_run self t0 tm v pattern mode) = validate self (readings t0 tm) v pattern mode
   \<and> (guard_trips self tm \<longrightarrow>
        outcome (validate_run self t0 tm v pattern mode)
          = (if mode = Verbose then timeout_record else Plain False)
        \<and> events (validate_run self t0 tm v pattern mode)
          = [ClockRead t0, ClockRead (t0 + overhead tm)])
   \<and> (TestCalled \<in> set (events (validate_run self t0 tm v pattern mode)) \<longleftrightarrow> \<not> guard_trips self tm)
   \<and> (TestCalled \<in> set (events (validate_run self t0 tm v pattern mode)) \<longrightarrow>
        outcome (validate_run self t0 tm v pattern mode) \<noteq> timeout_record
        \<and> message_of (outcome (validate_run self t0 tm v pattern mode))
            \<noteq> Some ''Validation timeout exceeded'')
   \<and> (message_of (outcome (validate_run self t0 tm v pattern mode))
          = Some ''Validation timeout exceeded''
        \<longleftrightarrow> mode = Verbose \<and> guard_trips self tm)
   \<and> outcome (validate_run self t0 (tm\<lparr>test_duration := d, match_duration := e\<rparr>) v pattern mode)
       = outcome (validate_run self t0 tm v pattern mode)
   \<and> \<not> list_ex is_clock_read (drop 2 (events (validate_run self t0 tm v pattern mode)))
   \<and> (0 \<le> configured_timeout opts \<and> guard_trips (RegExpValidator_new opts) tm
        \<longrightarrow> configured_timeout opts < overhead tm)"
proof (cases "guard_trips self tm")
  case True
  show ?thesis
    using True guard_trips_exceeds_configured [of opts tm]
    by (simp add: validate_run_outcome [symmetric] validate_run_tripped timeout_record_def
        validate_run_durations validate_run_no_late_reading)
next
  case False
  show ?thesis
    using False validate_run_evaluated [OF False, of t0 v pattern mode]
      guard_trips_exceeds_configured [of opts tm]
    by (simp add: validate_run_outcome [symmetric] validate_run_durations
        validate_run_no_late_reading)
qed

text \<open>
  Two instances, on the default validator and the latitude pattern.  With six seconds of
  overhead before the check the verbose call returns the timeout record and evaluates
  nothing.  With no overhead and an evaluation that takes a minute, twelve times the
  timeout, the call evaluates the pattern and returns \<^verbatim>\<open>true\<close> after that minute.
\<close>

theorem timeout_only_from_the_guard_before_evaluation_witness:
  "outcome (validate_run default_validator 0 \<lparr>overhead = 6000, test_duration = 0, match_duration = 0\<rparr>
     (js ''37.7749'') (get_property complexPatterns_coordinates (js ''latitude'')) Verbose)
     = timeout_record
   \<and> events (validate_run default_validator 0 \<lparr>overhead = 6000, test_duration = 0, match_duration = 0\<rparr>
     (js ''37.7749'') (get_property complexPatterns_coordinates (js ''latitude'')) Verbose)
     = [ClockRead 0, ClockRead 6000]
   \<and> configured_timeout no_options < 6000
   \<and> TestCalled \<in> set (events (validate_run default_validator 0
        \<lparr>overhead = 0, test_duration = 60000, match_duration = 0\<rparr>
        (js ''37.7749'') (get_property complexPatterns_coordinates (js ''latitude'')) NoMode))
   \<and> validate_run default_validator 0 \<lparr>overhead = 0, test_duration = 60000, match_duration = 0\<rparr>
        (js ''37.7749'') (get_property complexPatterns_coordinates (js ''latitude'')) NoMode
      = \<lparr>outcome = Plain True, events = [ClockRead 0, ClockRead 0, TestCalled], returned_at = 60000\<rparr>"
proof -
  let ?lat = "get_property complexPatterns_coordinates (js ''latitude'')"
  let ?slow = "\<lparr>overhead = 6000, test_duration = 0, match_duration = 0\<rparr>"
  let ?long = "\<lparr>overhead = 0, test_duration = 60000, match_duration = 0\<rparr>"
  have eff: "timeout_or_5000 default_validator = 5000"
    by (simp add: default_validator_def timeout_or_5000_def RegExpValidator_new_def
        no_options_def or_default_def)
  have trips: "guard_trips default_validator ?slow"
    and passes: "\<not> guard_trips default_validator ?long"
    by (simp_all add: guard_trips_def eff)
  have trips_new: "guard_trips (RegExpValidator_new no_options) ?slow"
    using trips by (simp add: default_validator_def)
  have c: "0 \<le> configured_timeout no_options"
    by (simp add: configured_timeout_def no_options_def)
  have run: "validate_run default_validator 0 ?long (js ''37.7749'') ?lat NoMode
      = \<lparr>outcome = Plain True, events = [ClockRead 0, ClockRead 0, TestCalled], returned_at = 60000\<rparr>"
    by (simp add: validate_run_def eff latitude_examples(1))
  from timeout_only_from_the_guard_before_evaluation
         [of default_validator 0 ?slow "js ''37.7749''" ?lat Verbose 0 0 no_options, THEN conjunct2]
       trips trips_new c
  have 1: "outcome (validate_run default_validator 0 ?slow (js ''37.7749'') ?lat Verbose) = timeout_record"
    and 2: "events (validate_run default_validator 0 ?slow (js ''37.7749'') ?lat Verbose)
        = [ClockRead 0, ClockRead 6000]"
    and 3: "configured_timeout no_options < 6000"
    by simp_all
  from timeout_only_from_the_guard_before_evaluation
         [of default_validator 0 ?long "js ''37.7749''" ?lat NoMode 0 0 no_options, THEN conjunct2]
       passes
  have 4: "TestCalled \<in> set (events (validate_run default_validator 0 ?long (js ''37.7749'') ?lat NoMode))"
    by blast
  from 1 2 3 4 run show ?thesis by (simp only: simp_thms)
qed

subsection \<open>C7: the version and variant nibbles of a UUID\<close>

text \<open>
  Claim C7.  Every string \<^verbatim>\<open>isValidUUID\<close> reports valid, in either mode, has the UUID
  layout, a version nibble from 1 to 5 and a variant nibble among 8, 9, a, b in either
  case; so a string of the layout that violates one of the two restrictions is rejected.
  Conversely, unless the elapsed-time guard trips, every string of the layout that meets
  both restrictions is reported valid.
\<close>

theorem isValidUUID_version_and_variant:
  "(verdict (isValidUUID self clk s mode)
      \<longrightarrow> uuid_layout s \<and> version_nibble_ok (s ! 14) \<and> variant_nibble_ok (s ! 19))
   \<and> (\<not> timed_out self clk \<and> uuid_layout s \<and> version_nibble_ok (s ! 14)
        \<and> variant_nibble_ok (s ! 19)
      \<longrightarrow> verdict (isValidUUID self clk s mode))"
proof (cases "timed_out self clk")
  case True
  then show ?thesis
    by (simp add: isValidUUID_def validate_timed_out timeout_record_def)
next
  case False
  then show ?thesis
    by (simp add: isValidUUID_def uuidPattern_ast verdict_validate uuid_test)
qed

text \<open>
  Instances: a version-4 UUID, the same with version nibble 6, and with variant nibble c.
\<close>

theorem isValidUUID_version_and_variant_witness:
  "verdict (isValidUUID default_validator still_clock (js ''550e8400-e29b-41d4-a716-446655440000'') NoMode)
   \<and> \<not> verdict (isValidUUID default_validator still_clock (js ''550e8400-e29b-61d4-a716-446655440000'') NoMode)
   \<and> \<not> verdict (isValidUUID default_validator still_clock (js ''550e8400-e29b-41d4-c716-446655440000'') NoMode)"
proof -
  have a: "uuid_layout (js ''550e8400-e29b-41d4-a716-446655440000'')"
    "version_nibble_ok (js ''550e8400-e29b-41d4-a716-446655440000'' ! 14)"
    "variant_nibble_ok (js ''550e8400-e29b-41d4-a716-446655440000'' ! 19)"
    "\<not> version_nibble_ok (js ''550e8400-e29b-61d4-a716-446655440000'' ! 14)"
    "\<not> variant_nibble_ok (js ''550e8400-e29b-41d4-c716-446655440000'' ! 19)"
    by code_simp+
  from isValidUUID_version_and_variant
         [of default_validator still_clock "js ''550e8400-e29b-41d4-a716-446655440000''" NoMode]
       isValidUUID_version_and_variant
         [of default_validator still_clock "js ''550e8400-e29b-61d4-a716-446655440000''" NoMode]
       isValidUUID_version_and_variant
         [of default_validator still_clock "js ''550e8400-e29b-41d4-c716-446655440000''" NoMode]
       a not_timed_out_default
  show ?thesis by blast
qed

subsection \<open>C8: a minimum length of zero\<close>

text \<open>
  Claim C8, as amended.  With \<^verbatim>\<open>minLength\<close> 0, the character requirements met or
  switched off, and unless the elapsed-time check trips, the call reports a password valid
  exactly when it holds no line terminator: the length part asks for nothing, and the empty
  password passes.
\<close>

theorem isStrongPassword_zero_minLength:
  assumes "policy_minLength (policy_of opts) = 0"
    and "\<not> timed_out self clk"
    and "requirements_met (policy_of opts) pw"
  shows "\<exists>r. isStrongPassword self clk pw opts mode = Inr r \<and> verdict r = no_line_terminator pw"
  using assms
  by (simp add: isStrongPassword_returns verdict_validate strong_ast_test)

text \<open>
  An instance: the empty password under \<^verbatim>\<open>minLength\<close> 0 with the three requirements
  switched off.
\<close>

theorem isStrongPassword_zero_minLength_witness:
  "isStrongPassword default_validator still_clock []
     (Some \<lparr>minLength = Some 0, requireUppercase = Some False, requireNumbers = Some False,
            requireSpecialChars = Some False\<rparr>) NoMode = Inr (Plain True)"
proof -
  let ?p = "Some \<lparr>minLength = Some 0, requireUppercase = Some False, requireNumbers = Some False,
            requireSpecialChars = Some False\<rparr>"
  have m: "policy_minLength (policy_of ?p) = 0"
    by (simp add: policy_of_def policy_minLength_def)
  have r: "requirements_met (policy_of ?p) []"
    by (simp add: requirements_met_def policy_of_def wants_def)
  from isStrongPassword_zero_minLength [OF m not_timed_out_default r, of NoMode]
  show ?thesis
    by (auto simp: isStrongPassword_returns validate_def Let_def no_line_terminator_def
        split: if_splits sum.splits)
qed

text \<open>
  The claim as stated fails on both counts.  With \<^verbatim>\<open>minLength\<close> -1 and the three
  requirements off, the empty password is reported invalid; with \<^verbatim>\<open>minLength\<close> 0 and
  the three requirements off, the password that is one line feed is reported invalid.
\<close>

theorem isStrongPassword_nonpositive_counterexample:
  "isStrongPassword default_validator still_clock []
     (Some \<lparr>minLength = Some (- 1), requireUppercase = Some False, requireNumbers = Some False,
            requireSpecialChars = Some False\<rparr>) NoMode = Inr (Plain False)
   \<and> isStrongPassword default_validator still_clock [10]
     (Some \<lparr>minLength = Some 0, requireUppercase = Some False, requireNumbers = Some False,
            requireSpecialChars = Some False\<rparr>) NoMode = Inr (Plain False)"
  using not_timed_out_default
  by (simp add: isStrongPassword_returns validate_def Let_def call_test_def timed_out_def
      strong_ast_test policy_of_def policy_minLength_def no_line_terminator_def
      is_line_terminator_def)

subsection \<open>C9: a discriminator outside the table\<close>

text \<open>
  Claim C9.  For a country code other than US, UK, CA, ANY and a coin type other than BTC,
  ETH, the looked-up rule is no pattern, \<^verbatim>\<open>pattern.test\<close> throws inside the guarded
  evaluation, and the call returns plain \<^verbatim>\<open>false\<close> in default mode and in verbose mode
  a record with \<^verbatim>\<open>isValid\<close> false and the error message (the timeout message if the
  elapsed-time guard tripped first).
\<close>

theorem unknown_discriminator_fails_closed:
  assumes "country \<notin> set (map js [''US'', ''UK'', ''CA'', ''ANY''])"
    and "coin \<notin> set (map js [''BTC'', ''ETH''])"
  shows "isValidPostalCode self clk v country NoMode = Plain False
       \<and> isValidCryptoAddress self clk v coin NoMode = Plain False
       \<and> (\<exists>e. isValidPostalCode self clk v country Verbose
                = (if timed_out self clk then timeout_record else error_record e))
       \<and> (\<exists>e. isValidCryptoAddress self clk v coin Verbose
                = (if timed_out self clk then timeout_record else error_record e))"
proof -
  have "map_of complexPatterns_postalCode country = None"
    using assms(1) by (simp add: complexPatterns_postalCode_def)
  from absent_key_faults [OF this, of v] obtain e1
    where e1: "call_test (get_property complexPatterns_postalCode country) v = Inl e1" ..
  have "map_of complexPatterns_crypto coin = None"
    using assms(2) by (simp add: complexPatterns_crypto_def)
  from absent_key_faults [OF this, of v] obtain e2
    where e2: "call_test (get_property complexPatterns_crypto coin) v = Inl e2" ..
  show ?thesis
    using validate_fault [OF e1] validate_fault [OF e2]
    by (auto simp: isValidPostalCode_def isValidCryptoAddress_def)
qed

text \<open>
  Instances: the country code FR and the coin type DOGE.
\<close>

theorem unknown_discriminator_fails_closed_witness:
  "isValidPostalCode default_validator still_clock (js ''75001'') (js ''FR'') NoMode = Plain False
   \<and> isValidCryptoAddress default_validator still_clock (js ''D8'') (js ''DOGE'') NoMode = Plain False
   \<and> (\<exists>e. isValidPostalCode default_validator still_clock (js ''75001'') (js ''FR'') Verbose = error_record e)
   \<and> (\<exists>e. isValidCryptoAddress default_validator still_clock (js ''D8'') (js ''DOGE'') Verbose = error_record e)"
proof -
  have a: "js ''FR'' \<notin> set (map js [''US'', ''UK'', ''CA'', ''ANY''])"
    and b: "js ''DOGE'' \<notin> set (map js [''BTC'', ''ETH''])"
    by (simp_all add: js_def)
  from unknown_discriminator_fails_closed [OF a b, of default_validator still_clock] not_timed_out_default
  show ?thesis by simp
qed

subsection \<open>C10: the timeout zero\<close>

text \<open>
  Claim C10.  A validator constructed with the timeout 0 has the effective timeout 5000
  and gives, for every value, rule, mode and clock, the result of a validator constructed
  without a timeout or with the timeout 5000.
\<close>

theorem zero_timeout_is_the_default_timeout:
  "timeout_or_5000 (RegExpValidator_new (opts\<lparr>timeout := Some 0\<rparr>)) = 5000
   \<and> validate (RegExpValidator_new (opts\<lparr>timeout := Some 0\<rparr>)) clk v pattern mode
       = validate (RegExpValidator_new (opts\<lparr>timeout := None\<rparr>)) clk v pattern mode
   \<and> validate (RegExpValidator_new (opts\<lparr>timeout := Some 0\<rparr>)) clk v pattern mode
       = validate (RegExpValidator_new (opts\<lparr>timeout := Some 5000\<rparr>)) clk v pattern mode
   \<and> isValid_pattern (RegExpValidator_new (opts\<lparr>timeout := Some 0\<rparr>)) clk v pattern mode
       = isValid_pattern (RegExpValidator_new (opts\<lparr>timeout := None\<rparr>)) clk v pattern mode
   \<and> (\<forall>op \<in> set pass_through_operations.
         op (RegExpValidator_new (opts\<lparr>timeout := Some 0\<rparr>)) clk v mode
         = op (RegExpValidator_new (opts\<lparr>timeout := None\<rparr>)) clk v mode)"
proof -
  have v: "validate (RegExpValidator_new (opts\<lparr>timeout := Some 0\<rparr>))
           = validate (RegExpValidator_new (opts\<lparr>timeout := None\<rparr>))"
    "validate (RegExpValidator_new (opts\<lparr>timeout := Some 0\<rparr>))
           = validate (RegExpValidator_new (opts\<lparr>timeout := Some 5000\<rparr>))"
    by (rule validate_timeout_only, simp only: timeout_zero)+
  have "op (RegExpValidator_new (opts\<lparr>timeout := Some 0\<rparr>)) clk v mode
         = op (RegExpValidator_new (opts\<lparr>timeout := None\<rparr>)) clk v mode"
    if "op \<in> set pass_through_operations" for op
    using pass_through_validate [OF that] by (auto simp: v(1))
  then show ?thesis
    using v by (simp add: timeout_zero(1) isValid_pattern_def)
qed

text \<open>
  An instance: \<^verbatim>\<open>isValidEmail\<close> on the clock that jumps six seconds, which trips a
  guard of zero milliseconds if there were one.
\<close>

theorem zero_timeout_is_the_default_timeout_witness:
  "isValidEmail (RegExpValidator_new (no_options\<lparr>timeout := Some 0\<rparr>)) late_clock (js ''user@example.com'') NoMode
   = isValidEmail (RegExpValidator_new (no_options\<lparr>timeout := None\<rparr>)) late_clock (js ''user@example.com'') NoMode"
proof -
  have m: "isValidEmail \<in> set pass_through_operations"
    by (simp add: pass_through_operations_def)
  from zero_timeout_is_the_default_timeout [of no_options late_clock "js ''user@example.com''" _ NoMode] m
  show ?thesis by blast
qed

end
